theory Spec2Isabelle
  imports Complex_Main
begin

section \<open>JavaScript values\<close>

text \<open>
  The k6 scripts are JavaScript and the Next.js route handlers are TypeScript, which
  runs as JavaScript. A value read out of a parsed JSON body is a \<open>jsval\<close>.
  JavaScript numbers are IEEE doubles. A finite double is the real number it stands
  for (an integer where the code only ever holds integers), and \<open>jsnum\<close> below
  adds the values that are not finite. The arithmetic of \<open>assessStability\<close>
  and of the summary that calls it, whose verdict compares a computed quotient with
  thresholds, rounds every result to the nearest double, as the machine does. The
  two per-iteration scenarios of the soak profile, \<open>monitorSystemHealth\<close> and
  \<open>trackPerformanceDegradation\<close>, are modelled with exact quotients, and a
  threshold written as a decimal stands for that decimal.
\<close>

datatype jsval =
    Undefined
  | Null
  | Bool bool
  | Num real
  | Str string
  | Arr "jsval list"
  | Obj "(string \<times> jsval) list"

text \<open>The outcome of an expression inside a \<open>try\<close> block.\<close>

datatype 'a completion = Thrown | Normal 'a

text \<open>\<open>ToBoolean\<close>: what \<open>if (v)\<close>, \<open>!v\<close>, \<open>&&\<close> and \<open>||\<close> test.\<close>

fun truthy :: "jsval \<Rightarrow> bool" where
  "truthy Undefined = False"
| "truthy Null = False"
| "truthy (Bool b) = b"
| "truthy (Num r) = (r \<noteq> 0)"
| "truthy (Str s) = (s \<noteq> [])"
| "truthy (Arr xs) = True"
| "truthy (Obj kvs) = True"

text \<open>
  Property access \<open>v.p\<close> for the property names the scripts read (\<open>success\<close>,
  \<open>data\<close>, \<open>id\<close>, \<open>title\<close>, \<open>content\<close>, \<open>name\<close>, \<open>email\<close>, \<open>avatar\<close>):
  a TypeError on \<open>null\<close> and \<open>undefined\<close>, the own property of an object,
  and \<open>undefined\<close> on every other value.
\<close>

fun get_prop :: "jsval \<Rightarrow> string \<Rightarrow> jsval completion" where
  "get_prop Undefined p = Thrown"
| "get_prop Null p = Thrown"
| "get_prop (Obj kvs) p = Normal (case map_of kvs p of None \<Rightarrow> Undefined | Some v \<Rightarrow> v)"
| "get_prop v p = Normal Undefined"

text \<open>
  Strict equality \<open>a === b\<close> between a stored value and a value of a freshly parsed
  body: primitives by value, while two distinct objects or arrays are never equal.
\<close>

fun strict_eq :: "jsval \<Rightarrow> jsval \<Rightarrow> bool" where
  "strict_eq Undefined Undefined = True"
| "strict_eq Null Null = True"
| "strict_eq (Bool a) (Bool b) = (a = b)"
| "strict_eq (Num a) (Num b) = (a = b)"
| "strict_eq (Str a) (Str b) = (a = b)"
| "strict_eq a b = False"

text \<open>
  The condition \<open>body.success && body.data\<close>: it throws when \<open>body\<close> is
  \<open>null\<close>, and otherwise yields \<open>body.data\<close> when both properties are truthy.
\<close>

definition success_and_data :: "jsval \<Rightarrow> jsval option completion" where
  "success_and_data body =
     (case get_prop body ''success'' of
        Thrown \<Rightarrow> Thrown
      | Normal s \<Rightarrow>
          if truthy s then
            (case get_prop body ''data'' of
               Thrown \<Rightarrow> Thrown
             | Normal d \<Rightarrow> Normal (if truthy d then Some d else None))
          else Normal None)"

text \<open>A number: a finite one, an infinity, or \<open>NaN\<close>. Zero carries no sign.\<close>

datatype jsnum = Fin real | PosInf | NegInf | NaN

text \<open>
  Rounding to the nearest double (binary64: 53 significant bits, exponents from
  \<open>-1022\<close> to \<open>1023\<close>, ties to the even significand). \<open>binade x\<close> is the
  exponent \<open>e\<close> with \<open>2^e \<le> |x| < 2^(e+1)\<close>, and \<open>-1022\<close> for every smaller
  \<open>x\<close>, where the doubles are subnormal; a result of magnitude \<open>2^1024\<close> or more
  is an infinity.
\<close>

function binade_up :: "real \<Rightarrow> int \<Rightarrow> int" where
  "binade_up x e = (if 0 < x \<and> 2 powi (e + 1) \<le> x then binade_up x (e + 1) else e)"
  by pat_completeness auto
termination
proof (relation "measure (\<lambda>(x, e). nat (\<lfloor>log 2 x\<rfloor> - e))")
  show "wf (measure (\<lambda>(x, e). nat (\<lfloor>log 2 x\<rfloor> - e)))"
    by simp
next
  fix x :: real and e :: int
  assume a: "0 < x \<and> 2 powi (e + 1) \<le> x"
  have "(2::real) powr real_of_int (e + 1) = 2 powi (e + 1)"
    by (rule powr_real_of_int') simp_all
  with a have "2 powr real_of_int (e + 1) \<le> x"
    by (simp only:)
  with a have "real_of_int (e + 1) \<le> log 2 x"
    by (subst le_log_iff) simp_all
  then have "e + 1 \<le> \<lfloor>log 2 x\<rfloor>"
    by (simp only: le_floor_iff)
  then show "((x, e + 1), (x, e)) \<in> measure (\<lambda>(x, e). nat (\<lfloor>log 2 x\<rfloor> - e))"
    by simp
qed

function binade_down :: "real \<Rightarrow> int \<Rightarrow> int" where
  "binade_down x e = (if x < 2 powi e \<and> - 1022 < e then binade_down x (e - 1) else e)"
  by pat_completeness auto
termination
  by (relation "measure (\<lambda>(x, e). nat (e + 1022))") auto

declare binade_up.simps [simp del] binade_down.simps [simp del]

definition binade :: "real \<Rightarrow> int" where
  "binade x = (if 1 \<le> \<bar>x\<bar> then binade_up \<bar>x\<bar> 0 else binade_down \<bar>x\<bar> 0)"

definition round_even :: "real \<Rightarrow> int" where
  "round_even y =
     (let f = \<lfloor>y\<rfloor>; d = y - of_int f
      in if d < 1 / 2 then f
         else if 1 / 2 < d then f + 1
         else if even f then f else f + 1)"

definition round64 :: "real \<Rightarrow> jsnum" where
  "round64 x =
     (if x = 0 then Fin 0
      else
        let ulp = 2 powi (binade x - 52);
            r = of_int (round_even (x / ulp)) * ulp
        in if 2 ^ 1024 \<le> r then PosInf
           else if r \<le> - (2 ^ 1024) then NegInf
           else Fin r)"

text \<open>
  Division, multiplication by a finite number, and subtraction of finite numbers, each
  rounded. A zero divisor counts as \<open>+0\<close>: the one divisor of the script that can
  be zero is a difference of two clock readings divided by positive constants.
\<close>

fun div64 :: "jsnum \<Rightarrow> jsnum \<Rightarrow> jsnum" where
  "div64 (Fin a) (Fin b) =
     (if b \<noteq> 0 then round64 (a / b)
      else if a > 0 then PosInf
      else if a < 0 then NegInf
      else NaN)"
| "div64 (Fin a) PosInf = Fin 0"
| "div64 (Fin a) NegInf = Fin 0"
| "div64 PosInf (Fin b) = (if b < 0 then NegInf else PosInf)"
| "div64 NegInf (Fin b) = (if b < 0 then PosInf else NegInf)"
| "div64 a b = NaN"

fun times64 :: "jsnum \<Rightarrow> real \<Rightarrow> jsnum" where
  "times64 (Fin x) c = round64 (x * c)"
| "times64 PosInf c = (if c > 0 then PosInf else if c < 0 then NegInf else NaN)"
| "times64 NegInf c = (if c > 0 then NegInf else if c < 0 then PosInf else NaN)"
| "times64 NaN c = NaN"

definition minus64 :: "real \<Rightarrow> real \<Rightarrow> jsnum" where
  "minus64 a b = round64 (a - b)"

text \<open>The exact quotient of two finite numbers, with the results of a zero divisor.\<close>

definition js_div :: "real \<Rightarrow> real \<Rightarrow> jsnum" where
  "js_div a b =
     (if b \<noteq> 0 then Fin (a / b)
      else if a > 0 then PosInf
      else if a < 0 then NegInf
      else NaN)"

fun js_lt :: "jsnum \<Rightarrow> real \<Rightarrow> bool" where
  "js_lt (Fin x) c = (x < c)"
| "js_lt PosInf c = False"
| "js_lt NegInf c = True"
| "js_lt NaN c = False"

fun js_gt :: "jsnum \<Rightarrow> real \<Rightarrow> bool" where
  "js_gt (Fin x) c = (x > c)"
| "js_gt PosInf c = True"
| "js_gt NegInf c = False"
| "js_gt NaN c = False"

text \<open>\<open>Array.prototype.join('\n')\<close>.\<close>

fun join_lines :: "string list \<Rightarrow> string" where
  "join_lines [] = []"
| "join_lines [x] = x"
| "join_lines (x # y # ys) = x @ [CHR 0x0A] @ join_lines (y # ys)"

text \<open>
  \<open>Map.prototype.set\<close> on a \<open>Map\<close> kept as an association list in insertion
  order: the value of an existing key is replaced where it stands, a new key goes to
  the end. \<open>Map.prototype.delete\<close> removes the entry of a key.
\<close>

fun map_set :: "'k \<Rightarrow> 'v \<Rightarrow> ('k \<times> 'v) list \<Rightarrow> ('k \<times> 'v) list" where
  "map_set k v [] = [(k, v)]"
| "map_set k v ((k', v') # kvs) =
     (if k' = k then (k, v) # kvs else (k', v') # map_set k v kvs)"

definition map_delete :: "'k \<Rightarrow> ('k \<times> 'v) list \<Rightarrow> ('k \<times> 'v) list" where
  "map_delete k kvs = filter (\<lambda>kv. fst kv \<noteq> k) kvs"

text \<open>\<open>xs[i]\<close> for a number \<open>i\<close>: \<open>undefined\<close> outside the array.\<close>

definition js_index :: "'a list \<Rightarrow> int \<Rightarrow> 'a option" where
  "js_index xs i = (if 0 \<le> i \<and> nat i < length xs then Some (xs ! nat i) else None)"

text \<open>Decimal rendering of an integer inside a template literal.\<close>

fun show_nat :: "nat \<Rightarrow> string" where
  "show_nat n =
     (if n < 10 then [char_of (48 + n)]
      else show_nat (n div 10) @ [char_of (48 + n mod 10)])"

definition show_int :: "int \<Rightarrow> string" where
  "show_int i = (if i < 0 then CHR ''-'' # show_nat (nat (- i)) else show_nat (nat i))"

text \<open>
  An HTTP response as k6 hands it to a script: the status, \<open>res.timings.duration\<close>,
  the raw body, and what \<open>JSON.parse(res.body)\<close> returns (\<open>None\<close> when it throws).
\<close>

record response =
  status :: int
  duration :: real
  body :: string
  parsed :: "jsval option"

text \<open>
  The typographic marks that start the report lines, as their UTF-8 bytes.
\<close>

definition bullet :: string where
  "bullet = [CHR 0xE2, CHR 0x80, CHR 0xA2]"

definition check_mark :: string where
  "check_mark = [CHR 0xE2, CHR 0x9C, CHR 0x85]"

definition warning_sign :: string where
  "warning_sign = [CHR 0xE2, CHR 0x9A, CHR 0xA0, CHR 0xEF, CHR 0xB8, CHR 0x8F]"

definition cross_mark :: string where
  "cross_mark = [CHR 0xE2, CHR 0x9D, CHR 0x8C]"

definition dart :: string where
  "dart = [CHR 0xF0, CHR 0x9F, CHR 0x8E, CHR 0xAF]"

text \<open>\<open>x || d\<close> for an optional number \<open>x\<close> (absent, or \<open>0\<close>, gives \<open>d\<close>).\<close>

definition num_or :: "real option \<Rightarrow> real \<Rightarrow> real" where
  "num_or x d = (case x of None \<Rightarrow> d | Some v \<Rightarrow> if v = 0 then d else v)"

text \<open>
  The end-of-test summary that k6 passes to \<open>handleSummary\<close>: the values of the
  built-in metrics, which always exist, and of the custom metrics, which exist once a
  sample was added (the scripts read them with \<open>?.\<close>).
\<close>

record metrics =
  http_req_failed_rate :: real
  http_req_duration_p95 :: real
  http_req_duration_p99 :: real
  slow_requests_count :: "real option"
  spike_errors_count :: "real option"
  recovery_time_avg :: "real option"
  data_integrity_rate :: "real option"
  memory_usage_max :: "real option"
  memory_usage_min :: "real option"
  performance_degradation_rate :: "real option"
  potential_leaks_count :: "real option"

section \<open>The spike profile: tests/k6/spike.js\<close>

text \<open>
  The module state of the script: \<open>testData\<close> and the four custom metrics. A
  \<open>Rate\<close> is the list of its observations, a \<open>Counter\<close> its running total, a
  \<open>Trend\<close> the list of its samples.

  The keys of \<open>createdPosts\<close> are whatever the create response carried as
  \<open>data.id\<close>; the service sends strings. A \<open>Map\<close> and a \<open>Set\<close> compare
  strings, numbers, booleans, \<open>null\<close> and \<open>undefined\<close> by value, and objects
  and arrays by identity. An id that is an object or an array is a new object with
  every parsed response, so it is a key of its own: it is named by the number of
  entries that the \<open>Map\<close>, which never loses an entry, held when it was stored.
\<close>

datatype jskey = Value jsval | Object nat

fun is_object :: "jsval \<Rightarrow> bool" where
  "is_object (Arr xs) = True"
| "is_object (Obj kvs) = True"
| "is_object v = False"

definition new_key :: "jsval \<Rightarrow> (jskey \<times> 'v) list \<Rightarrow> jskey" where
  "new_key v entries = (if is_object v then Object (length entries) else Value v)"

record postData =
  title :: string
  content :: string
  authorId :: string

record spike_state =
  createdPosts :: "(jskey \<times> postData) list"
  verifiedPosts :: "jskey set"
  spikeStartTime :: "int option"
  recoveryStartTime :: "int option"
  errorRate :: "bool list"
  spikeErrors :: nat
  recoveryTime :: "int list"
  dataIntegrity :: "bool list"

text \<open>Truthiness of a timestamp field that holds \<open>null\<close> or a number.\<close>

definition time_set :: "int option \<Rightarrow> bool" where
  "time_set t = (case t of None \<Rightarrow> False | Some n \<Rightarrow> n \<noteq> 0)"

text \<open>\<open>readSpike\<close>: the body of the \<open>forEach\<close>, then the loop over the responses
  of the three endpoints.\<close>

definition readSpike_endpoint :: "spike_state \<Rightarrow> response \<Rightarrow> spike_state" where
  "readSpike_endpoint s res =
     (if \<not> (status res = 200)
      then s\<lparr>spikeErrors := spikeErrors s + 1, errorRate := errorRate s @ [True]\<rparr>
      else s\<lparr>errorRate := errorRate s @ [False]\<rparr>)"

definition readSpike :: "response list \<Rightarrow> spike_state \<Rightarrow> spike_state" where
  "readSpike responses s = foldl readSpike_endpoint s responses"

text \<open>\<open>writeSpike\<close>; the payload is built from the clock and \<open>Math.random()\<close> and is
  a parameter here.\<close>

definition writeSpike :: "postData \<Rightarrow> response \<Rightarrow> spike_state \<Rightarrow> spike_state" where
  "writeSpike postData createRes s =
     (if status createRes = 201 then
        (case parsed createRes of
           None \<Rightarrow> s
         | Some responseData \<Rightarrow>
             (case success_and_data responseData of
                Thrown \<Rightarrow> s
              | Normal None \<Rightarrow> s
              | Normal (Some d) \<Rightarrow>
                  (case get_prop d ''id'' of
                     Thrown \<Rightarrow> s
                   | Normal i \<Rightarrow>
                       s\<lparr>createdPosts :=
                           map_set (new_key i (createdPosts s)) postData (createdPosts s)\<rparr>)))
      else s\<lparr>spikeErrors := spikeErrors s + 1, errorRate := errorRate s @ [True]\<rparr>)"

text \<open>
  \<open>verifyDataIntegrity\<close>. \<open>rnd\<close> is the value of \<open>Math.random()\<close>, \<open>res\<close> the
  response of the refetch, which is only issued past the two early returns.
\<close>

definition randomId :: "real \<Rightarrow> spike_state \<Rightarrow> jskey" where
  "randomId rnd s =
     (let postIds = map fst (createdPosts s)
      in case js_index postIds \<lfloor>rnd * real (length postIds)\<rfloor> of
           None \<Rightarrow> Value Undefined
         | Some k \<Rightarrow> k)"

definition verifyDataIntegrity :: "real \<Rightarrow> response \<Rightarrow> spike_state \<Rightarrow> spike_state" where
  "verifyDataIntegrity rnd res s =
     (if length (createdPosts s) = 0 then s
      else
        (case map_of (createdPosts s) (randomId rnd s) of
           None \<Rightarrow> s
         | Some originalData \<Rightarrow>
             if randomId rnd s \<in> verifiedPosts s then s
             else if status res = 200 then
               (case parsed res of
                  None \<Rightarrow> s\<lparr>dataIntegrity := dataIntegrity s @ [False]\<rparr>
                | Some b \<Rightarrow>
                    (case success_and_data b of
                       Thrown \<Rightarrow> s\<lparr>dataIntegrity := dataIntegrity s @ [False]\<rparr>
                     | Normal None \<Rightarrow> s
                     | Normal (Some d) \<Rightarrow>
                         (case get_prop d ''title'' of
                            Thrown \<Rightarrow> s\<lparr>dataIntegrity := dataIntegrity s @ [False]\<rparr>
                          | Normal t \<Rightarrow>
                              (case get_prop d ''content'' of
                                 Thrown \<Rightarrow> s\<lparr>dataIntegrity := dataIntegrity s @ [False]\<rparr>
                               | Normal c \<Rightarrow>
                                   let isValid =
                                         (strict_eq t (Str (title originalData)) \<and>
                                          strict_eq c (Str (content originalData)))
                                   in if isValid
                                      then s\<lparr>dataIntegrity := dataIntegrity s @ [True],
                                             verifiedPosts :=
                                               insert (randomId rnd s) (verifiedPosts s)\<rparr>
                                      else s\<lparr>dataIntegrity := dataIntegrity s @ [False]\<rparr>))))
             else s\<lparr>dataIntegrity := dataIntegrity s @ [False]\<rparr>))"

text \<open>
  \<open>measureRecovery\<close>: \<open>start\<close> and \<open>finish\<close> are the two readings of
  \<open>Date.now()\<close> around the health request.
\<close>

definition measureRecovery :: "int \<Rightarrow> int \<Rightarrow> response \<Rightarrow> spike_state \<Rightarrow> spike_state \<times> bool" where
  "measureRecovery start finish res s =
     (if status res = 200 \<and> duration res < 500
      then (s\<lparr>recoveryTime := recoveryTime s @ [finish - start]\<rparr>, True)
      else (s, False))"

text \<open>
  One iteration of the exported \<open>default\<close> function. Everything the iteration reads
  from outside the module state is a field of \<open>iteration\<close>: the concurrency, each
  reading of \<open>Date.now()\<close>, each draw of \<open>Math.random()\<close> and each response.
  \<open>sleep\<close>, \<open>check\<close> and the console are not modelled, and neither is the
  plain \<open>GET /api/posts\<close> of the normal branch, whose response only feeds a check.
\<close>

record iteration =
  currentVUs :: int
  spike_now :: int
  scenario_draw :: real
  read_responses :: "response list"
  write_postData :: postData
  write_response :: response
  verify_draw :: real
  verify_response :: response
  recovery_now :: int
  probe_start :: int
  probe_finish :: int
  probe_response :: response
  dwell_now :: int
  check_draw :: real

definition default_function :: "iteration \<Rightarrow> spike_state \<Rightarrow> spike_state" where
  "default_function i s =
     (if currentVUs i > 100 then
        let s1 = (if \<not> time_set (spikeStartTime s)
                  then s\<lparr>spikeStartTime := Some (spike_now i)\<rparr> else s)
        in if scenario_draw i < 0.7 then readSpike (read_responses i) s1
           else if scenario_draw i < 0.9
             then writeSpike (write_postData i) (write_response i) s1
           else verifyDataIntegrity (verify_draw i) (verify_response i) s1
      else
        let s1 = (if time_set (spikeStartTime s) \<and> \<not> time_set (recoveryStartTime s)
                  then s\<lparr>recoveryStartTime := Some (recovery_now i)\<rparr> else s);
            s2 = (if time_set (recoveryStartTime s1) then
                    (case measureRecovery (probe_start i) (probe_finish i)
                            (probe_response i) s1 of
                       (s', recovered) \<Rightarrow>
                         (case recoveryStartTime s' of
                            None \<Rightarrow> s'
                          | Some t0 \<Rightarrow>
                              if recovered \<and> dwell_now i - t0 > 5000
                              then s'\<lparr>recoveryStartTime := None, spikeStartTime := None\<rparr>
                              else s'))
                  else s1)
        in if check_draw i < 0.2
           then verifyDataIntegrity (verify_draw i) (verify_response i) s2
           else s2)"

text \<open>
  \<open>generateSpikeRecommendations\<close>: the array it builds, and the text it returns.
\<close>

definition spike_recommendations :: "metrics \<Rightarrow> real \<Rightarrow> real \<Rightarrow> real \<Rightarrow> string list" where
  "spike_recommendations m spikeErrs avgRecovery integrityRate =
     (let r1 = (if spikeErrs > 100 then
                  [bullet @ '' Implement request queuing to handle bursts'',
                   bullet @ '' Add connection pooling and rate limiting'',
                   bullet @ '' Configure auto-scaling with aggressive policies'']
                else []);
          r2 = (if avgRecovery > 5000 then
                  [bullet @ '' Optimize recovery mechanisms'',
                   bullet @ '' Implement health check based routing'',
                   bullet @ '' Add circuit breakers for faster recovery'']
                else []);
          r3 = (if integrityRate < 0.99 then
                  [bullet @ '' Review transaction handling during high load'',
                   bullet @ '' Implement database connection retry logic'',
                   bullet @ '' Add data validation layers'']
                else []);
          r4 = (if http_req_duration_p99 m > 10000 then
                  [bullet @ '' Implement request timeout handling'',
                   bullet @ '' Add caching layers to reduce load'',
                   bullet @ '' Optimize database queries and indexes'']
                else []);
          recommendations = r1 @ r2 @ r3 @ r4
      in if length recommendations = 0 then
           [bullet @ '' System performs well under spike conditions'',
            bullet @ '' Consider current configuration adequate'',
            bullet @ '' Monitor for edge cases in production'']
         else recommendations)"

definition generateSpikeRecommendations :: "metrics \<Rightarrow> real \<Rightarrow> real \<Rightarrow> real \<Rightarrow> string" where
  "generateSpikeRecommendations m spikeErrs avgRecovery integrityRate =
     join_lines (spike_recommendations m spikeErrs avgRecovery integrityRate)"

text \<open>
  The recommendations section of the spike \<open>handleSummary\<close>, with the defaults it
  gives to absent custom metrics.
\<close>

definition spike_summary_recommendations :: "metrics \<Rightarrow> string" where
  "spike_summary_recommendations m =
     (let totalErrors = num_or (spike_errors_count m) 0;
          avgRecoveryTime = num_or (recovery_time_avg m) 0;
          integrityRate = num_or (data_integrity_rate m) 1
      in generateSpikeRecommendations m totalErrors avgRecoveryTime integrityRate)"

section \<open>The stress profile: tests/k6/stress.js\<close>

text \<open>The five values that \<open>systemStatus\<close> takes.\<close>

datatype system_status = HEALTHY | WARNING | SLOW | DEGRADED | CRITICAL

text \<open>
  \<open>generateRecommendations\<close>: the array it builds, and the text it returns (the
  joined array, or the fixed text when the array is empty).
\<close>

definition stress_recommendations :: "metrics \<Rightarrow> system_status \<Rightarrow> string list" where
  "stress_recommendations m st =
     (let errRate = http_req_failed_rate m;
          p95 = http_req_duration_p95 m;
          r1 = (if errRate > 0.1 then
                  [bullet @ '' Implement circuit breakers to handle failures gracefully'',
                   bullet @ '' Add retry logic with exponential backoff'',
                   bullet @ '' Scale horizontally to distribute load'']
                else []);
          r2 = (if p95 > 3000 then
                  [bullet @ '' Optimize database queries and add indexes'',
                   bullet @ '' Implement caching layer (Redis/Memcached)'',
                   bullet @ '' Consider database read replicas'']
                else []);
          r3 = (if st = CRITICAL \<or> st = DEGRADED then
                  [bullet @ '' Implement rate limiting to prevent overload'',
                   bullet @ '' Add autoscaling based on CPU/memory metrics'',
                   bullet @ '' Review and optimize resource-intensive operations'']
                else []);
          r4 = (if (case slow_requests_count m of None \<Rightarrow> False | Some c \<Rightarrow> c > 100) then
                  [bullet @ '' Analyze slow query logs'',
                   bullet @ '' Implement request timeout handling'',
                   bullet @ '' Consider async processing for heavy operations'']
                else [])
      in r1 @ r2 @ r3 @ r4)"

definition generateRecommendations :: "metrics \<Rightarrow> system_status \<Rightarrow> string" where
  "generateRecommendations m st =
     (if length (stress_recommendations m st) > 0
      then join_lines (stress_recommendations m st)
      else bullet @ '' System performed well under stress'' @ [CHR 0x0A] @
           bullet @ '' Consider current configuration adequate'')"

text \<open>
  \<open>handleSummary\<close> of the stress profile: the status, the breaking point and the
  recommendations that it writes into the report. The layout of the report and the
  formatting of its numbers are not modelled.
\<close>

record stress_summary =
  systemStatus :: system_status
  breakingPoint :: "string option"
  recommendations :: string

definition classify :: "metrics \<Rightarrow> system_status \<times> string option" where
  "classify m =
     (let errRate = http_req_failed_rate m;
          p95Response = http_req_duration_p95 m;
          p99Response = http_req_duration_p99 m
      in if errRate > 0.5 then (CRITICAL, Some ''System failure - Error rate > 50%'')
         else if errRate > 0.3
           then (DEGRADED, Some ''Performance degraded - Error rate > 30%'')
         else if p95Response > 5000
           then (SLOW, Some ''Response time degraded - P95 > 5s'')
         else if p99Response > 10000
           then (WARNING, Some ''Some requests very slow - P99 > 10s'')
         else (HEALTHY, None))"

definition handleSummary :: "metrics \<Rightarrow> stress_summary" where
  "handleSummary m =
     \<lparr>systemStatus = fst (classify m),
      breakingPoint = snd (classify m),
      recommendations = generateRecommendations m (fst (classify m))\<rparr>"

text \<open>
  The severity order of the five statuses, and the threshold that each status stands
  for in \<open>handleSummary\<close>; \<open>HEALTHY\<close> has none.
\<close>

fun severity :: "system_status \<Rightarrow> nat" where
  "severity HEALTHY = 0"
| "severity WARNING = 1"
| "severity SLOW = 2"
| "severity DEGRADED = 3"
| "severity CRITICAL = 4"

fun tier_matches :: "metrics \<Rightarrow> system_status \<Rightarrow> bool" where
  "tier_matches m CRITICAL = (http_req_failed_rate m > 0.5)"
| "tier_matches m DEGRADED = (http_req_failed_rate m > 0.3)"
| "tier_matches m SLOW = (http_req_duration_p95 m > 5000)"
| "tier_matches m WARNING = (http_req_duration_p99 m > 10000)"
| "tier_matches m HEALTHY = True"

section \<open>The soak profile: tests/k6/soak.js\<close>

text \<open>
  The module state of the script: \<open>testState\<close> (the field \<open>errorRate\<close> of
  \<open>initialMetrics\<close> is never written and is left out) and the custom metrics that
  the modelled scenarios feed. \<open>checkpoints\<close> is the sparse array indexed by the
  minute. \<open>openConnections\<close> is only changed by \<open>normalUserBehavior\<close>, which
  is not modelled.
\<close>

record checkpoint =
  cp_time :: int
  cp_responseTime :: int
  cp_memoryUsage :: string
  cp_openConnections :: nat
  cp_errorRate :: string

record soak_state =
  startTime :: int
  initial_responseTime :: "int option"
  initial_memoryUsage :: "real option"
  checkpoints :: "int \<rightharpoonup> checkpoint"
  openConnections :: "string set"
  activeRequests :: "(string \<times> int) list"
  dataCache :: "(string \<times> string) list"
  memoryTrend :: "real list"
  currentMemory :: "real option"
  degradationRate :: "bool list"
  resourceLeaks :: nat

text \<open>
  \<open>resourceIntensiveTask\<close>: \<open>id_now\<close> and \<open>start_now\<close> are its two readings of
  \<open>Date.now()\<close>. The oldest key is the first key of the \<open>Map\<close>.
\<close>

definition evict_oldest :: "(string \<times> string) list \<Rightarrow> (string \<times> string) list" where
  "evict_oldest cache =
     (if length cache > 100 then
        (case cache of [] \<Rightarrow> cache | (oldestKey, v) # rest \<Rightarrow> map_delete oldestKey cache)
      else cache)"

definition resourceIntensiveTask :: "int \<Rightarrow> int \<Rightarrow> response \<Rightarrow> soak_state \<Rightarrow> soak_state" where
  "resourceIntensiveTask id_now start_now res s =
     (let taskId = ''task-'' @ show_int id_now;
          s1 = s\<lparr>activeRequests := map_set taskId start_now (activeRequests s)\<rparr>;
          success = (status res = 200);
          s2 = (if \<not> success then s1\<lparr>resourceLeaks := resourceLeaks s1 + 1\<rparr> else s1);
          s3 = (if success \<and> body res \<noteq> []
                then s2\<lparr>dataCache := evict_oldest (map_set taskId (body res) (dataCache s2))\<rparr>
                else s2)
      in s3\<lparr>activeRequests := map_delete taskId (activeRequests s3)\<rparr>)"

text \<open>
  The body of the health response, as far as \<open>monitorSystemHealth\<close> reads it: a
  body on which \<open>JSON.parse\<close> or the access to \<open>health.memory\<close> throws, or a body
  with the number \<open>health.memory.heapUsed\<close> (\<open>None\<close> when \<open>memory\<close> or
  \<open>heapUsed\<close> is absent). The health contract gives \<open>heapUsed\<close> as a number;
  other kinds of value are outside this type.
\<close>

datatype health_body = Health_throws | Health "real option"

definition memory_unset :: "real option \<Rightarrow> bool" where
  "memory_unset b = (case b of None \<Rightarrow> True | Some v \<Rightarrow> v = 0)"

definition monitorSystemHealth :: "int \<Rightarrow> int \<Rightarrow> health_body \<Rightarrow> soak_state \<Rightarrow> soak_state" where
  "monitorSystemHealth now health_status health s =
     (if health_status = 200 then
        (case health of
           Health_throws \<Rightarrow> s
         | Health None \<Rightarrow> s
         | Health (Some heapUsed) \<Rightarrow>
             if heapUsed = 0 then s
             else
               let memoryMB = heapUsed / 1024 / 1024;
                   s1 = s\<lparr>memoryTrend := memoryTrend s @ [memoryMB],
                          currentMemory := Some memoryMB\<rparr>;
                   s2 = (if memory_unset (initial_memoryUsage s1)
                         then s1\<lparr>initial_memoryUsage := Some memoryMB\<rparr> else s1);
                   initial = (case initial_memoryUsage s2 of None \<Rightarrow> 0 | Some v \<Rightarrow> v);
                   memoryIncrease = memoryMB - initial;
                   runTime = real_of_int (now - startTime s2) / 1000 / 60;
                   increasePerMinute = js_div memoryIncrease runTime
               in if js_gt increasePerMinute 1
                  then s2\<lparr>resourceLeaks := resourceLeaks s2 + 1\<rparr> else s2)
      else s)"

text \<open>
  \<open>trackPerformanceDegradation\<close>: \<open>start\<close> and \<open>finish\<close> are the readings of
  \<open>Date.now()\<close> around the request, \<open>now\<close> the later reading that gives the
  elapsed minutes, \<open>stamp\<close> the time written into a checkpoint. In the two
  subtractions a baseline that is still \<open>null\<close> would count as 0.
\<close>

definition baseline_unset :: "int option \<Rightarrow> bool" where
  "baseline_unset b = (case b of None \<Rightarrow> True | Some v \<Rightarrow> v = 0)"

definition trackPerformanceDegradation ::
    "int \<Rightarrow> int \<Rightarrow> int \<Rightarrow> int \<Rightarrow> soak_state \<Rightarrow> soak_state" where
  "trackPerformanceDegradation start finish now stamp s =
     (let responseTime = finish - start;
          s1 = (if baseline_unset (initial_responseTime s)
                then s\<lparr>initial_responseTime := Some responseTime\<rparr> else s);
          initial = (case initial_responseTime s1 of None \<Rightarrow> 0 | Some v \<Rightarrow> v);
          degradation = js_div (real_of_int (responseTime - initial)) (real_of_int initial);
          s2 = s1\<lparr>degradationRate := degradationRate s1 @ [js_gt degradation 0.2]\<rparr>;
          elapsed = now - startTime s2;
          minutes = elapsed div 60000
      in if minutes mod 10 = 0 \<and> checkpoints s2 minutes = None
         then s2\<lparr>checkpoints := (checkpoints s2)(minutes \<mapsto>
                  \<lparr>cp_time = stamp, cp_responseTime = responseTime,
                   cp_memoryUsage = ''current_memory'',
                   cp_openConnections = card (openConnections s2),
                   cp_errorRate = ''error_trend''\<rparr>)\<rparr>
         else s2)"

text \<open>
  \<open>assessStability\<close>: its four parts in order (memory, performance, error rate,
  overall), and the joined text it returns. \<open>(memoryGrowth / duration) * 60\<close> is
  a rounded division followed by a rounded multiplication.
\<close>

definition memoryGrowthPerHour :: "jsnum \<Rightarrow> jsnum \<Rightarrow> jsnum" where
  "memoryGrowthPerHour memoryGrowth minutes = times64 (div64 memoryGrowth minutes) 60"

definition memory_stability :: "jsnum \<Rightarrow> string" where
  "memory_stability perHour =
     (if js_lt perHour 10
        then check_mark @ '' Memory usage stable (< 10MB/hour growth)''
      else if js_lt perHour 50
        then warning_sign @ '' Moderate memory growth detected (10-50MB/hour)''
      else cross_mark @ '' Significant memory growth (> 50MB/hour) - possible leak'')"

definition performance_stability :: "real \<Rightarrow> string" where
  "performance_stability degradation =
     (if degradation < 0.05 then check_mark @ '' Performance remained consistent''
      else if degradation < 0.15
        then warning_sign @ '' Some performance degradation observed''
      else cross_mark @ '' Significant performance degradation over time'')"

definition error_stability :: "real \<Rightarrow> string" where
  "error_stability errRate =
     (if errRate < 0.01 then check_mark @ '' Very low error rate maintained''
      else if errRate < 0.05 then check_mark @ '' Acceptable error rate''
      else warning_sign @ '' Higher than expected error rate'')"

definition overall_stability :: "jsnum \<Rightarrow> real \<Rightarrow> real \<Rightarrow> string" where
  "overall_stability perHour degradation errRate =
     (if js_lt perHour 10 \<and> degradation < 0.05 \<and> errRate < 0.01
        then [CHR 0x0A] @ dart @
             '' EXCELLENT: System is production-ready for long-term operation''
      else if js_lt perHour 50 \<and> degradation < 0.15 \<and> errRate < 0.05
        then [CHR 0x0A] @ check_mark @ '' GOOD: System is stable but needs monitoring''
      else [CHR 0x0A] @ warning_sign @
           '' ATTENTION NEEDED: System shows signs of instability'')"

definition assessment :: "metrics \<Rightarrow> jsnum \<Rightarrow> real \<Rightarrow> jsnum \<Rightarrow> string list" where
  "assessment m memoryGrowth degradation minutes =
     (let errRate = http_req_failed_rate m;
          perHour = memoryGrowthPerHour memoryGrowth minutes
      in [memory_stability perHour,
          performance_stability degradation,
          error_stability errRate,
          overall_stability perHour degradation errRate])"

definition assessStability :: "metrics \<Rightarrow> jsnum \<Rightarrow> real \<Rightarrow> jsnum \<Rightarrow> string" where
  "assessStability m memoryGrowth degradation minutes =
     join_lines (assessment m memoryGrowth degradation minutes)"

text \<open>
  The stability section of the soak \<open>handleSummary\<close>, called at the clock reading
  \<open>now\<close>: the memory growth is the difference of the largest and the smallest
  sample of the memory trend, and the duration is the elapsed time in minutes.
\<close>

definition soak_memoryGrowth :: "metrics \<Rightarrow> jsnum" where
  "soak_memoryGrowth m =
     minus64 (num_or (memory_usage_max m) 0) (num_or (memory_usage_min m) 0)"

definition soak_summary_assessment :: "int \<Rightarrow> metrics \<Rightarrow> soak_state \<Rightarrow> string list" where
  "soak_summary_assessment now m s =
     (let testDuration =
            div64 (div64 (Fin (real_of_int (now - startTime s))) (Fin 1000)) (Fin 60);
          memoryGrowth = soak_memoryGrowth m;
          performanceDegradationRate = num_or (performance_degradation_rate m) 0
      in assessment m memoryGrowth performanceDegradationRate testDuration)"

section \<open>The target service: the route handlers under app/api\<close>

text \<open>
  The JSON envelope of a response and its status; \<open>NextResponse.json\<close> answers
  200 unless a status is given.
\<close>

record 'a api_response =
  res_status :: int
  res_success :: bool
  res_data :: "'a option"
  res_error :: "string option"

text \<open>
  \<open>POST /api/posts/[id]/view\<close> and \<open>POST /api/posts/[id]/like\<close>: the counter
  \<open>Map\<close> before and after, and the response, whose data is the new count
  (\<open>data.views\<close>, \<open>data.likes\<close>). The counts are integers.
\<close>

definition current_count :: "(string \<rightharpoonup> int) \<Rightarrow> string \<Rightarrow> int" where
  "current_count counts i = (case counts i of None \<Rightarrow> 0 | Some c \<Rightarrow> if c = 0 then 0 else c)"

definition view_POST :: "string \<Rightarrow> (string \<rightharpoonup> int) \<Rightarrow> (string \<rightharpoonup> int) \<times> int api_response" where
  "view_POST i viewCounts =
     (let currentViews = current_count viewCounts i
      in (viewCounts(i \<mapsto> currentViews + 1),
          \<lparr>res_status = 200, res_success = True,
           res_data = Some (currentViews + 1), res_error = None\<rparr>))"

definition like_POST :: "string \<Rightarrow> (string \<rightharpoonup> int) \<Rightarrow> (string \<rightharpoonup> int) \<times> int api_response" where
  "like_POST i likeCounts =
     (let currentLikes = current_count likeCounts i
      in (likeCounts(i \<mapsto> currentLikes + 1),
          \<lparr>res_status = 200, res_success = True,
           res_data = Some (currentLikes + 1), res_error = None\<rparr>))"

text \<open>
  \<open>POST /api/users\<close>. \<open>request_json\<close> is what \<open>await request.json()\<close> yields
  (\<open>None\<close> when it throws); \<open>id_now\<close>, \<open>avatar_now\<close> and \<open>created_now\<close> are
  the three readings of the clock. Name, e-mail and avatar are stored as the body
  gave them.
\<close>

record user =
  user_id :: string
  user_name :: jsval
  user_email :: jsval
  user_avatar :: jsval
  user_createdAt :: int

definition invalid_request_body :: "user api_response" where
  "invalid_request_body =
     \<lparr>res_status = 400, res_success = False, res_data = None,
      res_error = Some ''Invalid request body''\<rparr>"

definition users_POST ::
    "int \<Rightarrow> int \<Rightarrow> int \<Rightarrow> jsval option \<Rightarrow> user list \<Rightarrow> user list \<times> user api_response" where
  "users_POST id_now avatar_now created_now request_json users =
     (case request_json of
        None \<Rightarrow> (users, invalid_request_body)
      | Some b \<Rightarrow>
          (case (get_prop b ''name'', get_prop b ''email'', get_prop b ''avatar'') of
             (Normal name, Normal email, Normal avatar) \<Rightarrow>
               if \<not> truthy name \<or> \<not> truthy email then
                 (users, \<lparr>res_status = 400, res_success = False, res_data = None,
                          res_error = Some ''Missing required fields''\<rparr>)
               else if list_ex (\<lambda>u. strict_eq (user_email u) email) users then
                 (users, \<lparr>res_status = 409, res_success = False, res_data = None,
                          res_error = Some ''Email already exists''\<rparr>)
               else
                 let newUser =
                       \<lparr>user_id = ''user-'' @ show_int id_now,
                        user_name = name,
                        user_email = email,
                        user_avatar =
                          (if truthy avatar then avatar
                           else Str (''https://i.pravatar.cc/150?img='' @ show_int avatar_now)),
                        user_createdAt = created_now\<rparr>
                 in (users @ [newUser],
                     \<lparr>res_status = 201, res_success = True, res_data = Some newUser,
                      res_error = None\<rparr>)
           | _ \<Rightarrow> (users, invalid_request_body)))"

section \<open>Runs of a scenario, and the fixed texts of the reports\<close>

text \<open>
  Invoking one scenario again and again, each time with its own random draw, clock
  readings and response.
\<close>

definition verify_repeatedly :: "(real \<times> response) list \<Rightarrow> spike_state \<Rightarrow> spike_state" where
  "verify_repeatedly calls s = foldl (\<lambda>s c. verifyDataIntegrity (fst c) (snd c) s) s calls"

definition run_tasks :: "(int \<times> int \<times> response) list \<Rightarrow> soak_state \<Rightarrow> soak_state" where
  "run_tasks calls s =
     foldl (\<lambda>s c. resourceIntensiveTask (fst c) (fst (snd c)) (snd (snd c)) s) s calls"

text \<open>
  Bookkeeping for the age of the cache entries; it is not part of the script. Beside
  each key that a run of tasks leaves in the cache stands the index, in the run, of the
  task that inserted the key (a task that finds its key in the cache replaces the
  value and leaves the entry where it is).
\<close>

definition stamp_step ::
    "(string \<times> nat) list \<Rightarrow> nat \<times> int \<times> int \<times> response \<Rightarrow> (string \<times> nat) list" where
  "stamp_step st nc =
     (case nc of (n, id_now, start_now, res) \<Rightarrow>
        if status res = 200 \<and> body res \<noteq> [] then
          (let k = ''task-'' @ show_int id_now;
               st1 = (if k \<in> set (map fst st) then st else st @ [(k, n)])
           in if length st1 > 100 then tl st1 else st1)
        else st)"

definition insertion_stamps :: "(int \<times> int \<times> response) list \<Rightarrow> (string \<times> nat) list" where
  "insertion_stamps calls = foldl stamp_step [] (enumerate 0 calls)"

text \<open>The invariant of the cache: within capacity, and no key twice.\<close>

definition cache_ok :: "soak_state \<Rightarrow> bool" where
  "cache_ok s = (length (dataCache s) \<le> 100 \<and> distinct (map fst (dataCache s)))"

text \<open>The lines that the analysis functions emit when nothing is wrong, and the three
  memory verdicts of \<open>assessStability\<close>.\<close>

definition spike_no_action :: "string list" where
  "spike_no_action =
     [bullet @ '' System performs well under spike conditions'',
      bullet @ '' Consider current configuration adequate'',
      bullet @ '' Monitor for edge cases in production'']"

definition stress_no_action :: string where
  "stress_no_action =
     bullet @ '' System performed well under stress'' @ [CHR 0x0A] @
     bullet @ '' Consider current configuration adequate''"

definition stable_message :: string where
  "stable_message = check_mark @ '' Memory usage stable (< 10MB/hour growth)''"

definition moderate_message :: string where
  "moderate_message = warning_sign @ '' Moderate memory growth detected (10-50MB/hour)''"

definition leak_message :: string where
  "leak_message =
     cross_mark @ '' Significant memory growth (> 50MB/hour) - possible leak''"

section \<open>Example inputs\<close>

definition example_postData :: postData where
  "example_postData = \<lparr>title = ''t'', content = ''c'', authorId = ''user-1''\<rparr>"

definition ok_response :: response where
  "ok_response = \<lparr>status = 200, duration = 10, body = [], parsed = None\<rparr>"

text \<open>A spike is over and recovery began at time 2000.\<close>

definition recovering_state :: spike_state where
  "recovering_state =
     \<lparr>createdPosts = [], verifiedPosts = {},
      spikeStartTime = Some 1000, recoveryStartTime = Some 2000,
      errorRate = [], spikeErrors = 0, recoveryTime = [], dataIntegrity = []\<rparr>"

text \<open>An iteration at low concurrency whose health probe, sent at 8000, is answered
  at 8010.\<close>

definition responsive_iteration :: iteration where
  "responsive_iteration =
     \<lparr>currentVUs = 10, spike_now = 8000, scenario_draw = 0.5, read_responses = [],
      write_postData = example_postData, write_response = ok_response,
      verify_draw = 0, verify_response = ok_response,
      recovery_now = 8000, probe_start = 8000, probe_finish = 8010,
      probe_response = ok_response, dwell_now = 8010, check_draw = 0.5\<rparr>"

text \<open>The spike state at the start of a run, and two answers to a create request: one
  whose \<open>data.id\<close> is a string, one whose \<open>data.id\<close> is an object.\<close>

definition fresh_spike :: spike_state where
  "fresh_spike =
     \<lparr>createdPosts = [], verifiedPosts = {},
      spikeStartTime = None, recoveryStartTime = None,
      errorRate = [], spikeErrors = 0, recoveryTime = [], dataIntegrity = []\<rparr>"

definition created_with_string_id :: response where
  "created_with_string_id =
     \<lparr>status = 201, duration = 10, body = [],
      parsed = Some (Obj [(''success'', Bool True),
                          (''data'', Obj [(''id'', Str ''post-7'')])])\<rparr>"

definition created_with_object_id :: response where
  "created_with_object_id =
     \<lparr>status = 201, duration = 10, body = [],
      parsed = Some (Obj [(''success'', Bool True),
                          (''data'', Obj [(''id'', Obj [])])])\<rparr>"

text \<open>One created post, not yet verified, and the same post once verified.\<close>

definition unverified_state :: spike_state where
  "unverified_state =
     \<lparr>createdPosts = [(Value (Str ''post-1''), example_postData)], verifiedPosts = {},
      spikeStartTime = None, recoveryStartTime = None,
      errorRate = [], spikeErrors = 0, recoveryTime = [], dataIntegrity = []\<rparr>"

definition verified_state :: spike_state where
  "verified_state =
     unverified_state\<lparr>verifiedPosts := {Value (Str ''post-1'')}, dataIntegrity := [True]\<rparr>"

text \<open>A refetch answered 200 with the JSON body \<open>{}\<close>, and one answered with the
  post as it was submitted.\<close>

definition empty_envelope :: response where
  "empty_envelope = \<lparr>status = 200, duration = 10, body = ''{}'', parsed = Some (Obj [])\<rparr>"

definition matching_post :: response where
  "matching_post =
     \<lparr>status = 200, duration = 10, body = [],
      parsed = Some (Obj [(''success'', Bool True),
                          (''data'', Obj [(''title'', Str ''t''), (''content'', Str ''c'')])])\<rparr>"

text \<open>Summaries of a run in which six requests in ten failed, and of a quiet run.\<close>

definition failing_run :: metrics where
  "failing_run =
     \<lparr>http_req_failed_rate = 0.6, http_req_duration_p95 = 120,
      http_req_duration_p99 = 300, slow_requests_count = None,
      spike_errors_count = None, recovery_time_avg = None, data_integrity_rate = None,
      memory_usage_max = None, memory_usage_min = None,
      performance_degradation_rate = None, potential_leaks_count = None\<rparr>"

definition quiet_run :: metrics where
  "quiet_run =
     \<lparr>http_req_failed_rate = 0, http_req_duration_p95 = 40,
      http_req_duration_p99 = 50, slow_requests_count = None,
      spike_errors_count = None, recovery_time_avg = None, data_integrity_rate = None,
      memory_usage_max = Some 160, memory_usage_min = Some 100,
      performance_degradation_rate = None, potential_leaks_count = None\<rparr>"

text \<open>A soak run whose memory trend went from 100 MB up to 150 MB.\<close>

definition growing_run :: metrics where
  "growing_run = quiet_run\<lparr>memory_usage_max := Some 150\<rparr>"

text \<open>The soak state at the start of a run, a successful large read, and a hundred
  resource-intensive tasks at the clock readings 0 to 99.\<close>

definition fresh_soak :: soak_state where
  "fresh_soak =
     \<lparr>startTime = 0, initial_responseTime = None, initial_memoryUsage = None,
      checkpoints = Map.empty, openConnections = {}, activeRequests = [], dataCache = [],
      memoryTrend = [], currentMemory = None, degradationRate = [], resourceLeaks = 0\<rparr>"

definition posts_page :: response where
  "posts_page = \<lparr>status = 200, duration = 35, body = ''[]'', parsed = Some (Arr [])\<rparr>"

definition hundred_tasks :: "(int \<times> int \<times> response) list" where
  "hundred_tasks = map (\<lambda>n. (int n, int n, posts_page)) [0..<100]"

text \<open>One stored user, and three request bodies: without e-mail, with the stored
  e-mail, with a new e-mail.\<close>

definition stored_user :: user where
  "stored_user =
     \<lparr>user_id = ''user-1'', user_name = Str ''Test User 1'',
      user_email = Str ''user1@example.com'',
      user_avatar = Str ''https://i.pravatar.cc/150?img=1'', user_createdAt = 0\<rparr>"

definition body_without_email :: "(string \<times> jsval) list" where
  "body_without_email = [(''name'', Str ''Ann'')]"

definition body_duplicate_email :: "(string \<times> jsval) list" where
  "body_duplicate_email = [(''name'', Str ''Ann''), (''email'', Str ''user1@example.com'')]"

definition body_new_email :: "(string \<times> jsval) list" where
  "body_new_email = [(''name'', Str ''Ann''), (''email'', Str ''ann@example.com'')]"

section \<open>Properties of the spike profile\<close>

subsection \<open>The recovery transition\<close>

lemma verifyDataIntegrity_keeps_spike_window:
  "spikeStartTime (verifyDataIntegrity rnd res s) = spikeStartTime s \<and>
   recoveryStartTime (verifyDataIntegrity rnd res s) = recoveryStartTime s \<and>
   recoveryTime (verifyDataIntegrity rnd res s) = recoveryTime s"
  by (simp add: verifyDataIntegrity_def Let_def split: option.splits completion.splits)

text \<open>
  Whenever the transition from recovering to normal fires (low concurrency, a
  recovery start \<open>t0\<close>, a responsive probe, more than 5000 ms since \<open>t0\<close>), both
  timestamps are cleared, and the one sample that the iteration adds to the
  recovery-time trend is the round trip of the probe.
\<close>

lemma recovery_transition:
  assumes "\<not> currentVUs i > 100"
    and "recoveryStartTime s = Some t0" and "t0 \<noteq> 0"
    and "status (probe_response i) = 200" and "duration (probe_response i) < 500"
    and "dwell_now i - t0 > 5000"
  shows "spikeStartTime (default_function i s) = None"
    and "recoveryStartTime (default_function i s) = None"
    and "recoveryTime (default_function i s) =
           recoveryTime s @ [probe_finish i - probe_start i]"
  using assms
  by (simp_all add: default_function_def Let_def time_set_def measureRecovery_def
        verifyDataIntegrity_keeps_spike_window)

text \<open>
  A responsive probe adds its round trip to the trend also while the dwell time has
  not yet passed, and then the timestamps stay.
\<close>

lemma responsive_probe_before_dwell:
  assumes "\<not> currentVUs i > 100"
    and "recoveryStartTime s = Some t0" and "t0 \<noteq> 0"
    and "status (probe_response i) = 200" and "duration (probe_response i) < 500"
    and "\<not> dwell_now i - t0 > 5000"
  shows "recoveryStartTime (default_function i s) = Some t0"
    and "recoveryTime (default_function i s) =
           recoveryTime s @ [probe_finish i - probe_start i]"
  using assms
  by (simp_all add: default_function_def Let_def time_set_def measureRecovery_def
        verifyDataIntegrity_keeps_spike_window)

text \<open>
  Once the timestamps are cleared, the next iteration above the high-water mark
  starts a new cycle; the scenarios of the spike branch leave the timestamps alone.
\<close>

lemma readSpike_keeps_spike_window:
  "spikeStartTime (readSpike rs s) = spikeStartTime s \<and>
   recoveryStartTime (readSpike rs s) = recoveryStartTime s"
  unfolding readSpike_def
  by (induction rs arbitrary: s) (simp_all add: readSpike_endpoint_def)

lemma writeSpike_keeps_spike_window:
  "spikeStartTime (writeSpike p res s) = spikeStartTime s \<and>
   recoveryStartTime (writeSpike p res s) = recoveryStartTime s"
  by (simp add: writeSpike_def split: option.splits completion.splits)

lemma spike_starts_again:
  assumes "currentVUs i > 100" and "spikeStartTime s = None"
  shows "spikeStartTime (default_function i s) = Some (spike_now i)"
  using assms
  by (simp add: default_function_def Let_def time_set_def readSpike_keeps_spike_window
        writeSpike_keeps_spike_window verifyDataIntegrity_keeps_spike_window)

text \<open>
  C1. The claim: when the transition from recovering to normal fires, the time from
  \<open>recoveryStartTime\<close> to now is recorded as a sample of the recovery-time trend,
  and both timestamps are cleared. At \<open>recovering_state\<close> (recovery began at 2000)
  and \<open>responsive_iteration\<close> (probe sent at 8000, answered at 8010, dwell test
  at 8010) the transition fires and both timestamps are cleared, but the only sample
  in the trend is 10, the round trip of the probe, while the time since the recovery
  began is 6010.
\<close>

theorem recovery_sample_is_probe_round_trip:
  "recoveryTime (default_function responsive_iteration recovering_state) = [10] \<and>
   dwell_now responsive_iteration - 2000 = 6010 \<and>
   recoveryStartTime recovering_state = Some 2000 \<and>
   spikeStartTime (default_function responsive_iteration recovering_state) = None \<and>
   recoveryStartTime (default_function responsive_iteration recovering_state) = None"
  by (simp add: default_function_def Let_def time_set_def measureRecovery_def
        responsive_iteration_def recovering_state_def ok_response_def)

subsection \<open>The registry of created posts\<close>

text \<open>
  Two create answers with the same string id leave one entry, the second payload in
  place of the first; two create answers whose id is an object leave two entries.
\<close>

lemma string_ids_share_an_entry:
  "map fst (createdPosts (writeSpike p2 created_with_string_id
                            (writeSpike p1 created_with_string_id fresh_spike))) =
     [Value (Str ''post-7'')]"
  by (simp add: writeSpike_def created_with_string_id_def fresh_spike_def
        success_and_data_def new_key_def)

lemma object_ids_are_kept_apart:
  "map fst (createdPosts (writeSpike p2 created_with_object_id
                            (writeSpike p1 created_with_object_id fresh_spike))) =
     [Object 0, Object 1]"
  by (simp add: writeSpike_def created_with_object_id_def fresh_spike_def
        success_and_data_def new_key_def)

subsection \<open>The integrity check\<close>

lemma verifyDataIntegrity_verified:
  "randomId rnd s \<in> verifiedPosts s \<Longrightarrow> verifyDataIntegrity rnd res s = s"
  by (simp add: verifyDataIntegrity_def split: option.splits)

text \<open>
  C5. However often the integrity check runs, with whatever responses, as long as the
  id it draws is one that is already in \<open>verifiedPosts\<close>: \<open>verifiedPosts\<close> is
  unchanged and the integrity rate has no new observation; indeed the whole state is
  unchanged.
\<close>

theorem integrity_check_idempotent_on_verified:
  assumes "\<forall>c \<in> set calls. randomId (fst c) s \<in> verifiedPosts s"
  shows "verifiedPosts (verify_repeatedly calls s) = verifiedPosts s \<and>
         dataIntegrity (verify_repeatedly calls s) = dataIntegrity s \<and>
         verify_repeatedly calls s = s"
proof -
  have "verify_repeatedly calls s = s"
    using assms unfolding verify_repeatedly_def
    by (induction calls) (simp_all add: verifyDataIntegrity_verified)
  then show ?thesis by simp
qed

text \<open>
  The post of \<open>verified_state\<close> is checked twice more, once with a matching
  response and once with an empty envelope.
\<close>

theorem integrity_check_idempotent_on_verified_witness:
  "randomId 0 verified_state \<in> verifiedPosts verified_state \<and>
   randomId 0.5 verified_state \<in> verifiedPosts verified_state \<and>
   verifiedPosts (verify_repeatedly [(0, matching_post), (0.5, empty_envelope)] verified_state)
     = {Value (Str ''post-1'')} \<and>
   dataIntegrity (verify_repeatedly [(0, matching_post), (0.5, empty_envelope)] verified_state)
     = [True]"
proof -
  have h1: "randomId 0 verified_state \<in> verifiedPosts verified_state"
    and h2: "randomId 0.5 verified_state \<in> verifiedPosts verified_state"
    by (simp_all add: randomId_def js_index_def verified_state_def unverified_state_def)
  have h: "\<forall>c \<in> set [(0, matching_post), (0.5, empty_envelope)].
             randomId (fst c) verified_state \<in> verifiedPosts verified_state"
    using h1 h2 by simp
  show ?thesis
    using h1 h2 integrity_check_idempotent_on_verified [OF h]
    by (simp add: verified_state_def unverified_state_def)
qed

text \<open>What the refetch records in the other cases.\<close>

lemma refetch_not_ok:
  assumes "map_of (createdPosts s) (randomId rnd s) = Some d"
    and "randomId rnd s \<notin> verifiedPosts s" and "status res \<noteq> 200"
  shows "dataIntegrity (verifyDataIntegrity rnd res s) = dataIntegrity s @ [False]"
  using assms by (auto simp add: verifyDataIntegrity_def)

lemma refetch_unparseable:
  assumes "map_of (createdPosts s) (randomId rnd s) = Some d"
    and "randomId rnd s \<notin> verifiedPosts s" and "status res = 200" and "parsed res = None"
  shows "dataIntegrity (verifyDataIntegrity rnd res s) = dataIntegrity s @ [False]"
  using assms by (auto simp add: verifyDataIntegrity_def)

lemma refetch_matching:
  "verifyDataIntegrity 0 matching_post unverified_state = verified_state"
  by (simp add: verifyDataIntegrity_def randomId_def js_index_def unverified_state_def
        verified_state_def matching_post_def success_and_data_def example_postData_def)

lemma refetch_without_success_or_data:
  assumes "map_of (createdPosts s) (randomId rnd s) = Some d"
    and "randomId rnd s \<notin> verifiedPosts s" and "status res = 200"
    and "parsed res = Some b" and "success_and_data b = Normal None"
  shows "verifyDataIntegrity rnd res s = s"
  using assms by (auto simp add: verifyDataIntegrity_def)

text \<open>
  C6. The claim: every refetch whose body has an unexpected shape puts a failure
  observation into the integrity rate. The post of \<open>unverified_state\<close> is
  refetched and the answer is 200 with the JSON body \<open>{}\<close>, an envelope with neither
  \<open>success\<close> nor \<open>data\<close>: the refetch is performed, and the integrity rate has no
  observation afterwards.
\<close>

theorem refetch_of_empty_envelope_records_nothing:
  "map_of (createdPosts unverified_state) (randomId 0 unverified_state)
     = Some example_postData \<and>
   randomId 0 unverified_state \<notin> verifiedPosts unverified_state \<and>
   dataIntegrity unverified_state = [] \<and>
   dataIntegrity (verifyDataIntegrity 0 empty_envelope unverified_state) = []"
  by (simp add: verifyDataIntegrity_def randomId_def js_index_def unverified_state_def
        empty_envelope_def success_and_data_def)

section \<open>Properties of the analysis functions\<close>

subsection \<open>The status of the stress profile\<close>

lemma classify_matches: "tier_matches m (fst (classify m))"
  by (simp add: classify_def Let_def)

lemma classify_worst: "tier_matches m t \<Longrightarrow> severity t \<le> severity (fst (classify m))"
  by (cases t) (auto simp: classify_def Let_def)

text \<open>
  C2. With a failure rate above 0.5 the status of the stress summary is \<open>CRITICAL\<close>
  and the recommendations, which the report shows joined line by line, contain the
  circuit-breaker line and the retry line. For every summary, the status is a tier
  whose threshold is met, and no tier whose threshold is met is more severe in the
  order \<open>HEALTHY < WARNING < SLOW < DEGRADED < CRITICAL\<close>.
\<close>

theorem stress_status_is_worst_matching_tier:
  "(http_req_failed_rate m > 0.5 \<longrightarrow>
      systemStatus (handleSummary m) = CRITICAL \<and>
      bullet @ '' Implement circuit breakers to handle failures gracefully''
        \<in> set (stress_recommendations m (systemStatus (handleSummary m))) \<and>
      bullet @ '' Add retry logic with exponential backoff''
        \<in> set (stress_recommendations m (systemStatus (handleSummary m))) \<and>
      recommendations (handleSummary m) =
        join_lines (stress_recommendations m (systemStatus (handleSummary m)))) \<and>
   tier_matches m (systemStatus (handleSummary m)) \<and>
   (\<forall>t. tier_matches m t \<longrightarrow> severity t \<le> severity (systemStatus (handleSummary m)))"
proof -
  have st: "systemStatus (handleSummary m) = fst (classify m)"
    by (simp add: handleSummary_def)
  have crit: "http_req_failed_rate m > 0.5 \<Longrightarrow> fst (classify m) = CRITICAL"
    by (simp add: classify_def Let_def)
  have recs: "http_req_failed_rate m > 0.5 \<Longrightarrow>
      bullet @ '' Implement circuit breakers to handle failures gracefully''
        \<in> set (stress_recommendations m CRITICAL) \<and>
      bullet @ '' Add retry logic with exponential backoff''
        \<in> set (stress_recommendations m CRITICAL)"
    by (simp add: stress_recommendations_def Let_def)
  have report: "http_req_failed_rate m > 0.5 \<Longrightarrow>
      recommendations (handleSummary m) = join_lines (stress_recommendations m CRITICAL)"
    by (simp add: handleSummary_def generateRecommendations_def crit
          stress_recommendations_def Let_def)
  show ?thesis
    using st crit recs report classify_matches [of m] classify_worst [of m]
    by simp
qed

text \<open>The run in which six requests in ten failed.\<close>

theorem stress_status_is_worst_matching_tier_witness:
  "http_req_failed_rate failing_run > 0.5 \<and>
   systemStatus (handleSummary failing_run) = CRITICAL \<and>
   bullet @ '' Implement circuit breakers to handle failures gracefully''
     \<in> set (stress_recommendations failing_run CRITICAL) \<and>
   tier_matches failing_run DEGRADED \<and> severity DEGRADED \<le> severity CRITICAL"
proof -
  have h: "http_req_failed_rate failing_run > 0.5"
    by (simp add: failing_run_def)
  have st: "systemStatus (handleSummary failing_run) = CRITICAL"
    using stress_status_is_worst_matching_tier [of failing_run] h by blast
  have "bullet @ '' Implement circuit breakers to handle failures gracefully''
          \<in> set (stress_recommendations failing_run
                   (systemStatus (handleSummary failing_run)))"
    using stress_status_is_worst_matching_tier [of failing_run] h by blast
  moreover have d: "tier_matches failing_run DEGRADED"
    by (simp add: failing_run_def)
  moreover have "severity DEGRADED \<le> severity (systemStatus (handleSummary failing_run))"
    using stress_status_is_worst_matching_tier [of failing_run] d by blast
  ultimately show ?thesis using h st by simp
qed

subsection \<open>Recommendations when nothing is breached\<close>

text \<open>
  C3, as stated: with no secondary threshold breached the recommendations list equals
  the single message that no action is needed. For the quiet run, with no spike
  errors, no recovery delay and full integrity, the list of the spike profile has
  three entries, and the list of the stress profile has none (its function returns a
  fixed text instead).
\<close>

theorem quiet_run_recommendations_are_not_single:
  "(0::real) \<le> 100 \<and> (0::real) \<le> 5000 \<and> (0.99::real) \<le> 1 \<and>
   http_req_duration_p99 quiet_run \<le> 10000 \<and>
   length (spike_recommendations quiet_run 0 0 1) = 3 \<and>
   length (spike_recommendations quiet_run 0 0 1) \<noteq> 1 \<and>
   length (stress_recommendations quiet_run (systemStatus (handleSummary quiet_run))) = 0"
  by (simp add: spike_recommendations_def stress_recommendations_def quiet_run_def
        handleSummary_def classify_def Let_def)

text \<open>
  C3, amended. With no secondary threshold breached, the spike recommendations are
  the three fixed lines of \<open>spike_no_action\<close> (a non-empty list) and the returned
  text is these lines joined; the stress recommendations array is empty and the
  returned text is the fixed, non-empty two-line \<open>stress_no_action\<close>.
\<close>

theorem no_breach_gives_fixed_recommendations:
  "(spikeErrs \<le> 100 \<and> avgRecovery \<le> 5000 \<and> 0.99 \<le> integrityRate \<and>
    http_req_duration_p99 m \<le> 10000 \<longrightarrow>
      spike_recommendations m spikeErrs avgRecovery integrityRate = spike_no_action \<and>
      spike_recommendations m spikeErrs avgRecovery integrityRate \<noteq> [] \<and>
      generateSpikeRecommendations m spikeErrs avgRecovery integrityRate =
        join_lines spike_no_action) \<and>
   (http_req_failed_rate m \<le> 0.1 \<and> http_req_duration_p95 m \<le> 3000 \<and>
    (case slow_requests_count m of None \<Rightarrow> True | Some c \<Rightarrow> c \<le> 100) \<longrightarrow>
      stress_recommendations m (systemStatus (handleSummary m)) = [] \<and>
      recommendations (handleSummary m) = stress_no_action \<and>
      stress_no_action \<noteq> [])"
proof -
  have spike: "spike_recommendations m spikeErrs avgRecovery integrityRate = spike_no_action"
    if "spikeErrs \<le> 100" "avgRecovery \<le> 5000" "0.99 \<le> integrityRate"
       "http_req_duration_p99 m \<le> 10000"
    using that by (simp add: spike_recommendations_def spike_no_action_def Let_def)
  have nonempty: "spike_no_action \<noteq> []" "stress_no_action \<noteq> []"
    by (simp_all add: spike_no_action_def stress_no_action_def bullet_def)
  have status: "fst (classify m) \<noteq> CRITICAL \<and> fst (classify m) \<noteq> DEGRADED"
    if "http_req_failed_rate m \<le> 0.1"
    using that by (simp add: classify_def Let_def)
  have stress: "stress_recommendations m (fst (classify m)) = []"
    if "http_req_failed_rate m \<le> 0.1" "http_req_duration_p95 m \<le> 3000"
       "case slow_requests_count m of None \<Rightarrow> True | Some c \<Rightarrow> c \<le> 100"
    using that status
    by (auto simp add: stress_recommendations_def Let_def split: option.splits)
  show ?thesis
    using spike nonempty stress
    by (simp add: generateSpikeRecommendations_def handleSummary_def
          generateRecommendations_def stress_no_action_def)
qed

theorem no_breach_gives_fixed_recommendations_witness:
  "((0::real) \<le> 100 \<and> (0::real) \<le> 5000 \<and> (0.99::real) \<le> 1 \<and>
    http_req_duration_p99 quiet_run \<le> 10000) \<and>
   (http_req_failed_rate quiet_run \<le> 0.1 \<and> http_req_duration_p95 quiet_run \<le> 3000 \<and>
    (case slow_requests_count quiet_run of None \<Rightarrow> True | Some c \<Rightarrow> c \<le> 100)) \<and>
   spike_recommendations quiet_run 0 0 1 = spike_no_action \<and>
   recommendations (handleSummary quiet_run) = stress_no_action"
proof -
  have h1: "(0::real) \<le> 100 \<and> (0::real) \<le> 5000 \<and> (0.99::real) \<le> 1 \<and>
            http_req_duration_p99 quiet_run \<le> 10000"
    by (simp add: quiet_run_def)
  have h2: "http_req_failed_rate quiet_run \<le> 0.1 \<and> http_req_duration_p95 quiet_run \<le> 3000 \<and>
            (case slow_requests_count quiet_run of None \<Rightarrow> True | Some c \<Rightarrow> c \<le> 100)"
    by (simp add: quiet_run_def)
  have "spike_recommendations quiet_run 0 0 1 = spike_no_action"
    using no_breach_gives_fixed_recommendations [of 0 0 1 quiet_run] h1 by blast
  moreover have "recommendations (handleSummary quiet_run) = stress_no_action"
    using no_breach_gives_fixed_recommendations [of 0 0 1 quiet_run] h2 by blast
  ultimately show ?thesis using h1 h2 by blast
qed

subsection \<open>The memory verdict of the soak profile\<close>

lemma messages_distinct:
  "stable_message \<noteq> moderate_message" "stable_message \<noteq> leak_message"
  "moderate_message \<noteq> leak_message"
  by (simp_all add: stable_message_def moderate_message_def leak_message_def
        check_mark_def warning_sign_def cross_mark_def)

text \<open>The verdict as a function of the growth per hour that was computed.\<close>

lemma memory_stability_Fin:
  "memory_stability (Fin x) =
     (if x < 10 then stable_message else if x < 50 then moderate_message else leak_message)"
  by (simp add: memory_stability_def stable_message_def moderate_message_def
        leak_message_def)

lemma memory_stability_not_finite:
  "memory_stability PosInf = leak_message" "memory_stability NaN = leak_message"
  "memory_stability NegInf = stable_message"
  by (simp_all add: memory_stability_def stable_message_def leak_message_def)

text \<open>With no time elapsed the growth per hour is not a finite number.\<close>

lemma memoryGrowthPerHour_at_zero:
  "memoryGrowthPerHour (Fin g) (Fin 0) =
     (if g > 0 then PosInf else if g < 0 then NegInf else NaN)"
  by (simp add: memoryGrowthPerHour_def)

text \<open>
  Some values of the rounded arithmetic. In the last one the growth is the largest
  double below 1: the exact growth per hour is below 10, the computed one is 10.
\<close>

lemma growth_per_hour_values:
  "memoryGrowthPerHour (Fin 5) (Fin 60) = Fin 5"
  "memoryGrowthPerHour (Fin 30) (Fin 60) = Fin 30"
  "memoryGrowthPerHour (Fin 50) (Fin 60) = Fin 50"
  "memoryGrowthPerHour (Fin 60) (Fin 60) = Fin 60"
  "memoryGrowthPerHour (Fin (1 - 1 / 2 ^ 53)) (Fin 6) = Fin 10"
  by (simp_all add: memoryGrowthPerHour_def round64_def binade_def binade_up.simps
        binade_down.simps round_even_def Let_def)

lemma rounded_growth_reaches_ten:
  "(1 - 1 / 2 ^ 53) / 6 * 60 < (10::real) \<and>
   memory_stability (memoryGrowthPerHour (Fin (1 - 1 / 2 ^ 53)) (Fin 6)) = moderate_message"
proof -
  have "memory_stability (memoryGrowthPerHour (Fin (1 - 1 / 2 ^ 53)) (Fin 6)) =
        moderate_message"
    unfolding growth_per_hour_values memory_stability_Fin by simp
  then show ?thesis by simp
qed

text \<open>
  The part of C4 that holds on the code: the three verdicts below 10, from 10 to below
  50, and above 50, and the trend with minimum 100 and maximum 160 after 60 minutes
  (3600000 ms), whose growth per hour is 60 and whose assessment begins with the leak
  message.
\<close>

lemma verdict_examples:
  "memory_stability (memoryGrowthPerHour (Fin 5) (Fin 60)) = stable_message"
  "memory_stability (memoryGrowthPerHour (Fin 30) (Fin 60)) = moderate_message"
  "memory_stability (memoryGrowthPerHour (Fin 60) (Fin 60)) = leak_message"
  by (simp_all add: growth_per_hour_values memory_stability_Fin)

lemma sixty_minutes:
  "div64 (div64 (Fin (real_of_int (3600000 - startTime fresh_soak))) (Fin 1000)) (Fin 60) =
   Fin 60"
  by (simp add: fresh_soak_def round64_def binade_def binade_up.simps binade_down.simps
        round_even_def Let_def)

lemma rising_trend_is_leak_suspected:
  "soak_memoryGrowth quiet_run = Fin 60 \<and>
   soak_summary_assessment 3600000 quiet_run fresh_soak ! 0 = leak_message"
proof -
  have growth: "soak_memoryGrowth quiet_run = Fin 60"
    by (simp add: soak_memoryGrowth_def minus64_def quiet_run_def num_or_def round64_def
          binade_def binade_up.simps binade_down.simps round_even_def Let_def)
  have "soak_summary_assessment 3600000 quiet_run fresh_soak ! 0 =
        memory_stability (memoryGrowthPerHour (Fin 60) (Fin 60))"
    unfolding soak_summary_assessment_def assessment_def Let_def growth sixty_minutes
    by simp
  then show ?thesis
    using growth verdict_examples by simp
qed

text \<open>
  C4. The claim: a growth per hour in 10 to 50 is moderate, and leak-suspected is a
  growth per hour above 50; the script's own report lines say the same
  (\<open>10-50MB/hour\<close>, \<open>> 50MB/hour\<close>). After a run of 60 minutes (3600000 ms)
  whose memory trend has minimum 100 and maximum 150, the memory growth is 50 and the
  growth per hour is \<open>50 / 60 * 60\<close>, computed as exactly 50, which is not above 50;
  the assessment begins with the leak message, not with the moderate one.
\<close>

theorem fifty_per_hour_is_leak_suspected:
  "soak_memoryGrowth growing_run = Fin 50 \<and>
   memoryGrowthPerHour (Fin 50) (Fin 60) = Fin 50 \<and>
   soak_summary_assessment 3600000 growing_run fresh_soak ! 0 = leak_message \<and>
   memory_stability (memoryGrowthPerHour (Fin 50) (Fin 60)) = leak_message \<and>
   leak_message \<noteq> moderate_message"
proof -
  have growth: "soak_memoryGrowth growing_run = Fin 50"
    by (simp add: soak_memoryGrowth_def minus64_def growing_run_def quiet_run_def
          num_or_def round64_def binade_def binade_up.simps binade_down.simps
          round_even_def Let_def)
  have verdict: "memory_stability (memoryGrowthPerHour (Fin 50) (Fin 60)) = leak_message"
    by (simp add: growth_per_hour_values memory_stability_Fin)
  have "soak_summary_assessment 3600000 growing_run fresh_soak ! 0 =
        memory_stability (memoryGrowthPerHour (Fin 50) (Fin 60))"
    unfolding soak_summary_assessment_def assessment_def Let_def growth sixty_minutes
    by simp
  then show ?thesis
    using growth verdict messages_distinct growth_per_hour_values by simp
qed

section \<open>Properties of the soak scenarios\<close>

subsection \<open>The baseline\<close>

text \<open>
  A baseline that holds a non-zero value is kept by both scenarios, and the health
  monitor only ever stores a non-zero memory sample.
\<close>

lemma track_keeps_responseTime:
  "initial_responseTime s = Some b \<Longrightarrow> b \<noteq> 0 \<Longrightarrow>
   initial_responseTime (trackPerformanceDegradation start finish now stamp s) = Some b"
  by (simp add: trackPerformanceDegradation_def Let_def baseline_unset_def)

lemma track_keeps_memoryUsage:
  "initial_memoryUsage (trackPerformanceDegradation start finish now stamp s) =
   initial_memoryUsage s"
  by (simp add: trackPerformanceDegradation_def Let_def)

lemma monitor_keeps_responseTime:
  "initial_responseTime (monitorSystemHealth now st h s) = initial_responseTime s"
  by (simp add: monitorSystemHealth_def Let_def split: health_body.splits option.splits)

lemma monitor_keeps_memoryUsage:
  "initial_memoryUsage s = Some b \<Longrightarrow> b \<noteq> 0 \<Longrightarrow>
   initial_memoryUsage (monitorSystemHealth now st h s) = Some b"
  by (simp add: monitorSystemHealth_def Let_def memory_unset_def
        split: health_body.splits option.splits)

lemma monitor_sets_nonzero_memoryUsage:
  "initial_memoryUsage s = None \<Longrightarrow>
   initial_memoryUsage (monitorSystemHealth now st h s) = Some b \<Longrightarrow> b \<noteq> 0"
  by (auto simp add: monitorSystemHealth_def Let_def memory_unset_def
        split: health_body.splits option.splits if_splits)

lemma track_sets_first_responseTime:
  "initial_responseTime s = None \<Longrightarrow>
   initial_responseTime (trackPerformanceDegradation start finish now stamp s) =
     Some (finish - start)"
  by (simp add: trackPerformanceDegradation_def Let_def baseline_unset_def)

text \<open>
  C7. The claim: the baseline is set once, by the first writer, and never overwritten,
  for every sequence of observed values. In a fresh run the first performance check
  is answered within the same millisecond (both clock readings 1000), so the first
  observed response time, 0, becomes the baseline; the next check observes 5 ms and
  overwrites the baseline with 5.
\<close>

theorem zero_baseline_is_overwritten:
  "initial_responseTime fresh_soak = None \<and>
   initial_responseTime
     (trackPerformanceDegradation 1000 1000 1000 1000 fresh_soak) = Some 0 \<and>
   initial_responseTime
     (trackPerformanceDegradation 70000 70005 70005 70005
        (trackPerformanceDegradation 1000 1000 1000 1000 fresh_soak)) = Some 5"
  by (simp add: trackPerformanceDegradation_def Let_def baseline_unset_def fresh_soak_def)

subsection \<open>The cache of the resource-intensive task\<close>

text \<open>
  \<open>set\<close> keeps the keys that are there in their order and puts a new key last, so
  the keys stand in the order in which they were inserted, the oldest first.
\<close>

lemma keys_map_set:
  "map fst (map_set k v kvs) =
     (if k \<in> set (map fst kvs) then map fst kvs else map fst kvs @ [k])"
  by (induction kvs) force+

lemma length_map_set:
  "length (map_set k v kvs) =
     (if k \<in> set (map fst kvs) then length kvs else Suc (length kvs))"
  by (induction kvs) force+

lemma distinct_map_set:
  "distinct (map fst kvs) \<Longrightarrow> distinct (map fst (map_set k v kvs))"
  by (simp add: keys_map_set)

lemma map_delete_head:
  "distinct (map fst ((k, v) # kvs)) \<Longrightarrow> map_delete k ((k, v) # kvs) = kvs"
  by (auto simp add: map_delete_def filter_id_conv rev_image_eqI)

lemma evict_oldest_tl:
  "distinct (map fst cache) \<Longrightarrow>
   evict_oldest cache = (if length cache > 100 then tl cache else cache)"
  by (cases cache) (auto simp add: evict_oldest_def map_delete_head simp del: distinct.simps)

lemma evict_oldest_ok:
  assumes "distinct (map fst c)" and "length c \<le> 101"
  shows "length (evict_oldest c) \<le> 100 \<and> distinct (map fst (evict_oldest c))"
  using assms by (auto simp add: evict_oldest_tl map_tl distinct_tl)

lemma dataCache_task:
  "dataCache (resourceIntensiveTask id_now start_now res s) =
     (if status res = 200 \<and> body res \<noteq> []
      then evict_oldest (map_set (''task-'' @ show_int id_now) (body res) (dataCache s))
      else dataCache s)"
  by (simp add: resourceIntensiveTask_def Let_def)

lemma cache_ok_task:
  assumes "cache_ok s"
  shows "cache_ok (resourceIntensiveTask id_now start_now res s)"
proof -
  let ?c = "map_set (''task-'' @ show_int id_now) (body res) (dataCache s)"
  have d: "distinct (map fst ?c)"
    using assms by (simp add: cache_ok_def distinct_map_set)
  have l: "length ?c \<le> 101"
    using assms by (simp add: cache_ok_def length_map_set)
  have "length (evict_oldest ?c) \<le> 100 \<and> distinct (map fst (evict_oldest ?c))"
    using d l by (rule evict_oldest_ok)
  then show ?thesis
    using assms by (simp add: cache_ok_def dataCache_task)
qed

lemma cache_ok_run_tasks: "cache_ok s \<Longrightarrow> cache_ok (run_tasks calls s)"
  unfolding run_tasks_def
  by (induction calls arbitrary: s) (simp_all add: cache_ok_task)

lemma run_tasks_snoc:
  "run_tasks (calls @ [c]) s =
     resourceIntensiveTask (fst c) (fst (snd c)) (snd (snd c)) (run_tasks calls s)"
  by (simp add: run_tasks_def)

text \<open>The other two modelled scenarios of the soak profile leave the cache alone.\<close>

lemma monitor_keeps_dataCache:
  "dataCache (monitorSystemHealth now st h s) = dataCache s"
  by (simp add: monitorSystemHealth_def Let_def split: health_body.splits option.splits)

lemma track_keeps_dataCache:
  "dataCache (trackPerformanceDegradation start finish now stamp s) = dataCache s"
  by (simp add: trackPerformanceDegradation_def Let_def)

text \<open>
  The bookkeeping follows the cache key by key, and its indices increase strictly
  along the list.
\<close>

lemma insertion_stamps_snoc:
  "insertion_stamps (calls @ [c]) = stamp_step (insertion_stamps calls) (length calls, c)"
  by (simp add: insertion_stamps_def enumerate_append_eq)

lemma stamp_step_keys:
  assumes keys: "map fst st = map fst cache" and d: "distinct (map fst cache)"
  shows "map fst (stamp_step st (n, id_now, start_now, res)) =
         map fst (if status res = 200 \<and> body res \<noteq> []
                  then evict_oldest (map_set (''task-'' @ show_int id_now) (body res) cache)
                  else cache)"
proof (cases "status res = 200 \<and> body res \<noteq> []")
  case False
  then show ?thesis using keys by (auto simp add: stamp_step_def)
next
  case True
  define k where "k = ''task-'' @ show_int id_now"
  define st1 where "st1 = (if k \<in> set (map fst st) then st else st @ [(k, n)])"
  define c1 where "c1 = map_set k (body res) cache"
  have k1: "map fst st1 = map fst c1"
    unfolding st1_def c1_def keys_map_set using keys by simp
  then have l1: "length st1 = length c1"
    by (rule map_eq_imp_length_eq)
  have d1: "distinct (map fst c1)"
    unfolding c1_def using d by (rule distinct_map_set)
  have "stamp_step st (n, id_now, start_now, res) = (if length st1 > 100 then tl st1 else st1)"
    using True by (simp add: stamp_step_def st1_def k_def Let_def)
  moreover have "evict_oldest c1 = (if length c1 > 100 then tl c1 else c1)"
    using d1 by (rule evict_oldest_tl)
  ultimately show ?thesis
    using True k1 l1 by (simp add: c1_def k_def map_tl)
qed

lemma insertion_stamps_keys:
  assumes "dataCache s0 = []"
  shows "map fst (insertion_stamps calls) = map fst (dataCache (run_tasks calls s0))"
proof (induction calls rule: rev_induct)
  case Nil
  show ?case using assms by (simp add: insertion_stamps_def run_tasks_def)
next
  case (snoc c calls)
  obtain id_now start_now res where c: "c = (id_now, start_now, res)"
    by (cases c)
  have "cache_ok s0" using assms by (simp add: cache_ok_def)
  then have "cache_ok (run_tasks calls s0)" by (rule cache_ok_run_tasks)
  then have d: "distinct (map fst (dataCache (run_tasks calls s0)))"
    by (simp add: cache_ok_def)
  show ?case
    unfolding insertion_stamps_snoc run_tasks_snoc c
    using stamp_step_keys [OF snoc.IH d, of "length calls" id_now start_now res]
    by (simp add: dataCache_task)
qed

lemma tl_stamps:
  fixes xs :: "(string \<times> nat) list"
  assumes "sorted_wrt (<) (map snd xs)" and "\<forall>n \<in> set (map snd xs). n < b"
  shows "sorted_wrt (<) (map snd (tl xs)) \<and> (\<forall>n \<in> set (map snd (tl xs)). n < b)"
  using assms by (cases xs) auto

lemma stamp_step_sorted:
  assumes s: "sorted_wrt (<) (map snd st)" and b: "\<forall>n \<in> set (map snd st). n < m"
  shows "sorted_wrt (<) (map snd (stamp_step st (m, c))) \<and>
         (\<forall>n \<in> set (map snd (stamp_step st (m, c))). n < Suc m)"
proof -
  obtain id_now start_now res where c: "c = (id_now, start_now, res)"
    by (cases c)
  define k where "k = ''task-'' @ show_int id_now"
  define st1 where "st1 = (if k \<in> set (map fst st) then st else st @ [(k, m)])"
  have s1: "sorted_wrt (<) (map snd st1)"
    unfolding st1_def using s b by (auto simp add: sorted_wrt_append)
  have b1: "\<forall>n \<in> set (map snd st1). n < Suc m"
    unfolding st1_def using b by (auto simp add: less_Suc_eq)
  have b0: "\<forall>n \<in> set (map snd st). n < Suc m"
    using b by (auto simp add: less_Suc_eq)
  have step: "stamp_step st (m, c) =
      (if status res = 200 \<and> body res \<noteq> []
       then (if length st1 > 100 then tl st1 else st1) else st)"
    by (simp add: stamp_step_def c st1_def k_def Let_def)
  show ?thesis
  proof (cases "status res = 200 \<and> body res \<noteq> []")
    case False
    then have "stamp_step st (m, c) = st"
      unfolding step by auto
    then show ?thesis using s b0 by simp
  next
    case True
    show ?thesis
    proof (cases "length st1 > 100")
      case True
      with \<open>status res = 200 \<and> body res \<noteq> []\<close> have "stamp_step st (m, c) = tl st1"
        unfolding step by simp
      then show ?thesis using tl_stamps [OF s1 b1] by simp
    next
      case False
      with \<open>status res = 200 \<and> body res \<noteq> []\<close> have "stamp_step st (m, c) = st1"
        unfolding step by simp
      then show ?thesis using s1 b1 by simp
    qed
  qed
qed

lemma insertion_stamps_sorted:
  "sorted_wrt (<) (map snd (insertion_stamps calls)) \<and>
   (\<forall>n \<in> set (map snd (insertion_stamps calls)). n < length calls)"
proof (induction calls rule: rev_induct)
  case Nil
  show ?case by (simp add: insertion_stamps_def)
next
  case (snoc c calls)
  then have s: "sorted_wrt (<) (map snd (insertion_stamps calls))"
    and b: "\<forall>n \<in> set (map snd (insertion_stamps calls)). n < length calls"
    by blast+
  show ?case
    unfolding insertion_stamps_snoc using stamp_step_sorted [OF s b, of c] by simp
qed

text \<open>
  C8. From an empty cache, after every sequence \<open>calls\<close> of resource-intensive
  tasks the cache holds at most 100 entries. When the next task stores a body, the
  keys keep their insertion order (the key of the task goes last unless it is there
  already), and the cache after the task is the cache after the insertion, without
  its first entry whenever the insertion made it larger than 100. The first entry is
  the oldest: the keys of the cache are those of \<open>insertion_stamps\<close>, in order,
  and the indices of the tasks that inserted them increase strictly along the cache.
\<close>

theorem dataCache_bounded_evicts_oldest:
  assumes "dataCache s0 = []"
  shows "length (dataCache (run_tasks calls s0)) \<le> 100 \<and>
    (status res = 200 \<and> body res \<noteq> [] \<longrightarrow>
       map fst (map_set (''task-'' @ show_int id_now) (body res)
                  (dataCache (run_tasks calls s0))) =
         (if ''task-'' @ show_int id_now \<in> set (map fst (dataCache (run_tasks calls s0)))
          then map fst (dataCache (run_tasks calls s0))
          else map fst (dataCache (run_tasks calls s0)) @ [''task-'' @ show_int id_now]) \<and>
       dataCache (resourceIntensiveTask id_now start_now res (run_tasks calls s0)) =
         (if length (map_set (''task-'' @ show_int id_now) (body res)
                       (dataCache (run_tasks calls s0))) > 100
          then tl (map_set (''task-'' @ show_int id_now) (body res)
                     (dataCache (run_tasks calls s0)))
          else map_set (''task-'' @ show_int id_now) (body res)
                 (dataCache (run_tasks calls s0)))) \<and>
    map fst (dataCache (run_tasks calls s0)) = map fst (insertion_stamps calls) \<and>
    sorted_wrt (<) (map snd (insertion_stamps calls))"
proof -
  have "cache_ok s0"
    using assms by (simp add: cache_ok_def)
  then have ok: "cache_ok (run_tasks calls s0)"
    by (rule cache_ok_run_tasks)
  then have d: "distinct (map fst (map_set k v (dataCache (run_tasks calls s0))))" for k v
    by (simp add: cache_ok_def distinct_map_set)
  have age: "map fst (dataCache (run_tasks calls s0)) = map fst (insertion_stamps calls) \<and>
      sorted_wrt (<) (map snd (insertion_stamps calls))"
    using insertion_stamps_keys [OF assms, of calls] insertion_stamps_sorted [of calls]
    by simp
  have bounded: "length (dataCache (run_tasks calls s0)) \<le> 100"
    using ok by (simp add: cache_ok_def)
  have step: "status res = 200 \<and> body res \<noteq> [] \<longrightarrow>
       map fst (map_set (''task-'' @ show_int id_now) (body res)
                  (dataCache (run_tasks calls s0))) =
         (if ''task-'' @ show_int id_now \<in> set (map fst (dataCache (run_tasks calls s0)))
          then map fst (dataCache (run_tasks calls s0))
          else map fst (dataCache (run_tasks calls s0)) @ [''task-'' @ show_int id_now]) \<and>
       dataCache (resourceIntensiveTask id_now start_now res (run_tasks calls s0)) =
         (if length (map_set (''task-'' @ show_int id_now) (body res)
                       (dataCache (run_tasks calls s0))) > 100
          then tl (map_set (''task-'' @ show_int id_now) (body res)
                     (dataCache (run_tasks calls s0)))
          else map_set (''task-'' @ show_int id_now) (body res)
                 (dataCache (run_tasks calls s0)))"
    by (simp add: dataCache_task keys_map_set evict_oldest_tl [OF d])
  show ?thesis
    using bounded step age by blast
qed

text \<open>
  The decimal rendering is injective, so the tasks at the clock readings 0, 1, 2, ...
  have different keys, and the first \<open>k\<close> of them, while within capacity, leave
  the cache with their \<open>k\<close> entries in order.
\<close>

lemma digit_inj: "a < 10 \<Longrightarrow> b < 10 \<Longrightarrow> char_of (48 + a) = (char_of (48 + b) :: char) \<Longrightarrow> a = (b::nat)"
  by (simp add: char_of_eq_iff take_bit_eq_mod)

lemma show_nat_nonempty: "show_nat n \<noteq> []"
  by (induction n rule: show_nat.induct) (subst show_nat.simps, simp)

lemma show_nat_inj: "show_nat m = show_nat n \<Longrightarrow> m = n"
proof (induction m arbitrary: n rule: show_nat.induct)
  case (1 m)
  show ?case
  proof (cases "m < 10")
    case True
    then have m: "show_nat m = [char_of (48 + m)]" by (subst show_nat.simps) simp
    show ?thesis
    proof (cases "n < 10")
      case n: True
      then have "show_nat n = [char_of (48 + n)]" by (subst show_nat.simps) simp
      with m "1.prems" True n show ?thesis by (auto dest: digit_inj)
    next
      case n: False
      then have "show_nat n = show_nat (n div 10) @ [char_of (48 + n mod 10)]"
        by (subst show_nat.simps) simp
      with m "1.prems" show_nat_nonempty [of "n div 10"] show ?thesis by auto
    qed
  next
    case False
    then have m: "show_nat m = show_nat (m div 10) @ [char_of (48 + m mod 10)]"
      by (subst show_nat.simps) simp
    show ?thesis
    proof (cases "n < 10")
      case n: True
      then have "show_nat n = [char_of (48 + n)]" by (subst show_nat.simps) simp
      with m "1.prems" show_nat_nonempty [of "m div 10"] show ?thesis by auto
    next
      case n: False
      then have "show_nat n = show_nat (n div 10) @ [char_of (48 + n mod 10)]"
        by (subst show_nat.simps) simp
      with m "1.prems" have e: "show_nat (m div 10) = show_nat (n div 10)"
        and d: "char_of (48 + m mod 10) = (char_of (48 + n mod 10) :: char)" by auto
      from "1.IH" [OF False e] have "m div 10 = n div 10" .
      moreover from d have "m mod 10 = n mod 10" by (auto dest: digit_inj)
      ultimately show ?thesis by (metis div_mult_mod_eq)
    qed
  qed
qed


lemma show_int_int: "show_int (int n) = show_nat n"
  by (simp add: show_int_def)

lemma map_set_fresh: "k \<notin> set (map fst kvs) \<Longrightarrow> map_set k v kvs = kvs @ [(k, v)]"
  by (induction kvs) auto

lemma task_key_fresh:
  "''task-'' @ show_int (int k) \<notin>
     set (map fst (map (\<lambda>n. (''task-'' @ show_int (int n), b)) [0..<k]))"
proof
  assume "''task-'' @ show_int (int k) \<in>
     set (map fst (map (\<lambda>n. (''task-'' @ show_int (int n), b)) [0..<k]))"
  then obtain n where n: "n < k" and "''task-'' @ show_int (int k) = ''task-'' @ show_int (int n)"
    by auto
  then have "show_nat k = show_nat n"
    by (simp add: show_int_int)
  then have "k = n" by (rule show_nat_inj)
  with n show False by simp
qed

lemma cache_after_first_tasks:
  "k \<le> 100 \<Longrightarrow>
   dataCache (run_tasks (map (\<lambda>n. (int n, int n, posts_page)) [0..<k]) fresh_soak) =
     map (\<lambda>n. (''task-'' @ show_int (int n), body posts_page)) [0..<k]"
proof (induction k)
  case 0
  show ?case by (simp add: run_tasks_def fresh_soak_def)
next
  case (Suc k)
  let ?before = "run_tasks (map (\<lambda>n. (int n, int n, posts_page)) [0..<k]) fresh_soak"
  let ?entries = "map (\<lambda>n. (''task-'' @ show_int (int n), body posts_page)) [0..<k]"
  have IH: "dataCache ?before = ?entries"
    using Suc by simp
  have r: "status posts_page = 200 \<and> body posts_page \<noteq> []"
    by (simp add: posts_page_def)
  have run: "run_tasks (map (\<lambda>n. (int n, int n, posts_page)) [0..<Suc k]) fresh_soak =
      resourceIntensiveTask (int k) (int k) posts_page ?before"
    by (simp add: run_tasks_snoc)
  have ins: "map_set (''task-'' @ show_int (int k)) (body posts_page) ?entries =
      ?entries @ [(''task-'' @ show_int (int k), body posts_page)]"
    by (rule map_set_fresh [OF task_key_fresh])
  have len: "length (?entries @ [(''task-'' @ show_int (int k), body posts_page)]) \<le> 100"
    using Suc.prems by simp
  have "dataCache (resourceIntensiveTask (int k) (int k) posts_page ?before) =
      ?entries @ [(''task-'' @ show_int (int k), body posts_page)]"
    using r len unfolding dataCache_task IH ins by (simp add: evict_oldest_def)
  then show ?case
    unfolding run by simp
qed

text \<open>
  A hundred tasks at the clock readings 0 to 99 fill the cache; the task at reading
  100 makes it 101 entries long and the first entry, \<open>task-0\<close>, is evicted.
\<close>

theorem dataCache_bounded_evicts_oldest_witness:
  "dataCache fresh_soak = [] \<and>
   (status posts_page = 200 \<and> body posts_page \<noteq> []) \<and>
   length (dataCache (run_tasks hundred_tasks fresh_soak)) \<le> 100 \<and>
   length (map_set (''task-'' @ show_int 100) (body posts_page)
             (dataCache (run_tasks hundred_tasks fresh_soak))) = 101 \<and>
   dataCache (resourceIntensiveTask 100 100 posts_page (run_tasks hundred_tasks fresh_soak)) =
     tl (map_set (''task-'' @ show_int 100) (body posts_page)
           (dataCache (run_tasks hundred_tasks fresh_soak)))"
proof -
  have h: "dataCache fresh_soak = []"
    by (simp add: fresh_soak_def)
  have r: "status posts_page = 200 \<and> body posts_page \<noteq> []"
    by (simp add: posts_page_def)
  have cache: "dataCache (run_tasks hundred_tasks fresh_soak) =
      map (\<lambda>n. (''task-'' @ show_int (int n), body posts_page)) [0..<100]"
    unfolding hundred_tasks_def by (rule cache_after_first_tasks) simp
  have fresh: "''task-'' @ show_int 100 \<notin>
      set (map fst (dataCache (run_tasks hundred_tasks fresh_soak)))"
    unfolding cache using task_key_fresh [of 100 "body posts_page"] by simp
  have len: "length (map_set (''task-'' @ show_int 100) (body posts_page)
               (dataCache (run_tasks hundred_tasks fresh_soak))) = 101"
    using fresh by (simp add: length_map_set cache)
  note t = dataCache_bounded_evicts_oldest
             [OF h, of hundred_tasks posts_page 100 100]
  have bound: "length (dataCache (run_tasks hundred_tasks fresh_soak)) \<le> 100"
    using t by (rule conjunct1)
  have step: "dataCache (resourceIntensiveTask 100 100 posts_page
                (run_tasks hundred_tasks fresh_soak)) =
      (if length (map_set (''task-'' @ show_int 100) (body posts_page)
                    (dataCache (run_tasks hundred_tasks fresh_soak))) > 100
       then tl (map_set (''task-'' @ show_int 100) (body posts_page)
                  (dataCache (run_tasks hundred_tasks fresh_soak)))
       else map_set (''task-'' @ show_int 100) (body posts_page)
              (dataCache (run_tasks hundred_tasks fresh_soak)))"
    using t r by blast
  have evicted: "dataCache (resourceIntensiveTask 100 100 posts_page
                   (run_tasks hundred_tasks fresh_soak)) =
      tl (map_set (''task-'' @ show_int 100) (body posts_page)
            (dataCache (run_tasks hundred_tasks fresh_soak)))"
    unfolding step len by simp
  show ?thesis
    using h r bound len evicted by blast
qed

section \<open>Properties of the route handlers\<close>

subsection \<open>View and like counters\<close>

text \<open>
  C9. For every id, whether or not a post with that id exists, the view handler and
  the like handler answer 200 with \<open>success: true\<close> and no error, the count in the
  answer is the count stored for the id before the request (0 for an id not yet seen)
  plus one, and that count is what the handler stores.
\<close>

theorem view_and_like_count_up:
  "view_POST i viewCounts =
     (viewCounts(i \<mapsto> (case viewCounts i of None \<Rightarrow> 0 | Some c \<Rightarrow> c) + 1),
      \<lparr>res_status = 200, res_success = True,
       res_data = Some ((case viewCounts i of None \<Rightarrow> 0 | Some c \<Rightarrow> c) + 1),
       res_error = None\<rparr>) \<and>
   like_POST i likeCounts =
     (likeCounts(i \<mapsto> (case likeCounts i of None \<Rightarrow> 0 | Some c \<Rightarrow> c) + 1),
      \<lparr>res_status = 200, res_success = True,
       res_data = Some ((case likeCounts i of None \<Rightarrow> 0 | Some c \<Rightarrow> c) + 1),
       res_error = None\<rparr>)"
  by (simp add: view_POST_def like_POST_def current_count_def Let_def split: option.splits)

subsection \<open>Creating a user\<close>

text \<open>The three ways the handler can answer, and what each does to the stored users.\<close>

lemma users_POST_cases:
  "users_POST a b c req users = (users', r) \<Longrightarrow>
     (res_status r = 400 \<and> \<not> res_success r \<and> users' = users) \<or>
     (res_status r = 409 \<and> \<not> res_success r \<and> users' = users) \<or>
     (res_status r = 201 \<and> res_success r \<and>
        (\<exists>u. users' = users @ [u] \<and> res_data r = Some u))"
  by (auto simp add: users_POST_def invalid_request_body_def Let_def
        split: option.splits completion.splits if_splits prod.splits)

lemma users_POST_falsy_field:
  assumes "get_prop b ''name'' = Normal n" and "get_prop b ''email'' = Normal e"
    and "\<not> truthy n \<or> \<not> truthy e"
  shows "res_status (snd (users_POST a1 a2 a3 (Some b) users)) = 400 \<and>
         fst (users_POST a1 a2 a3 (Some b) users) = users"
  using assms
  by (cases "get_prop b ''avatar''")
     (auto simp add: users_POST_def invalid_request_body_def)

lemma users_POST_unreadable:
  "users_POST a1 a2 a3 None users = (users, invalid_request_body)"
  "users_POST a1 a2 a3 (Some Null) users = (users, invalid_request_body)"
  by (simp_all add: users_POST_def)

text \<open>
  C10. A body without \<open>name\<close> or without \<open>email\<close> is answered 400. A body with a
  name and with the e-mail of a stored user is answered 409 with \<open>success: false\<close>.
  In both cases the stored users are unchanged. For every request, the stored users
  are unchanged unless the answer is 201, and then exactly one user, the one in the
  answer, is appended.
\<close>

theorem users_POST_atomic_on_error:
  "(map_of kvs ''name'' = None \<or> map_of kvs ''email'' = None \<longrightarrow>
      res_status (snd (users_POST a1 a2 a3 (Some (Obj kvs)) users)) = 400 \<and>
      fst (users_POST a1 a2 a3 (Some (Obj kvs)) users) = users) \<and>
   (map_of kvs ''name'' = Some n \<and> truthy n \<and>
    map_of kvs ''email'' = Some (Str e) \<and> e \<noteq> [] \<and>
    (\<exists>u \<in> set users. user_email u = Str e) \<longrightarrow>
      res_status (snd (users_POST a1 a2 a3 (Some (Obj kvs)) users)) = 409 \<and>
      \<not> res_success (snd (users_POST a1 a2 a3 (Some (Obj kvs)) users)) \<and>
      fst (users_POST a1 a2 a3 (Some (Obj kvs)) users) = users) \<and>
   (res_status (snd (users_POST a1 a2 a3 req users)) \<noteq> 201 \<longrightarrow>
      fst (users_POST a1 a2 a3 req users) = users) \<and>
   (res_status (snd (users_POST a1 a2 a3 req users)) = 201 \<longrightarrow>
      (\<exists>u. fst (users_POST a1 a2 a3 req users) = users @ [u] \<and>
           res_data (snd (users_POST a1 a2 a3 req users)) = Some u))"
proof -
  have missing: "res_status (snd (users_POST a1 a2 a3 (Some (Obj kvs)) users)) = 400 \<and>
      fst (users_POST a1 a2 a3 (Some (Obj kvs)) users) = users"
    if "map_of kvs ''name'' = None \<or> map_of kvs ''email'' = None"
    using that by (auto simp add: users_POST_def split: option.splits)
  have duplicate: "res_status (snd (users_POST a1 a2 a3 (Some (Obj kvs)) users)) = 409 \<and>
      \<not> res_success (snd (users_POST a1 a2 a3 (Some (Obj kvs)) users)) \<and>
      fst (users_POST a1 a2 a3 (Some (Obj kvs)) users) = users"
    if "map_of kvs ''name'' = Some n" "truthy n" "map_of kvs ''email'' = Some (Str e)"
       "e \<noteq> []" "\<exists>u \<in> set users. user_email u = Str e"
    using that by (auto simp add: users_POST_def list_ex_iff split: option.splits)
  obtain users' r where ur: "users_POST a1 a2 a3 req users = (users', r)"
    by (cases "users_POST a1 a2 a3 req users")
  have rest: "(res_status r \<noteq> 201 \<longrightarrow> users' = users) \<and>
      (res_status r = 201 \<longrightarrow> (\<exists>u. users' = users @ [u] \<and> res_data r = Some u))"
    using users_POST_cases [OF ur] by auto
  show ?thesis
    using missing duplicate rest by (simp add: ur)
qed

text \<open>
  With one stored user: a body without e-mail, a body with the stored e-mail, and a
  body with a new e-mail, which is the only one that adds a user.
\<close>

theorem users_POST_atomic_on_error_witness:
  "(map_of body_without_email ''name'' = None \<or> map_of body_without_email ''email'' = None) \<and>
   res_status (snd (users_POST 5 6 7 (Some (Obj body_without_email)) [stored_user])) = 400 \<and>
   fst (users_POST 5 6 7 (Some (Obj body_without_email)) [stored_user]) = [stored_user] \<and>
   (map_of body_duplicate_email ''name'' = Some (Str ''Ann'') \<and> truthy (Str ''Ann'') \<and>
    map_of body_duplicate_email ''email'' = Some (Str ''user1@example.com'') \<and>
    ''user1@example.com'' \<noteq> [] \<and>
    (\<exists>u \<in> set [stored_user]. user_email u = Str ''user1@example.com'')) \<and>
   res_status (snd (users_POST 5 6 7 (Some (Obj body_duplicate_email)) [stored_user])) = 409 \<and>
   fst (users_POST 5 6 7 (Some (Obj body_duplicate_email)) [stored_user]) = [stored_user] \<and>
   res_status (snd (users_POST 5 6 7 (Some (Obj body_new_email)) [stored_user])) = 201 \<and>
   (\<exists>u. fst (users_POST 5 6 7 (Some (Obj body_new_email)) [stored_user]) = [stored_user] @ [u])"
proof -
  have h1: "map_of body_without_email ''name'' = None \<or>
            map_of body_without_email ''email'' = None"
    by (simp add: body_without_email_def)
  have h2: "map_of body_duplicate_email ''name'' = Some (Str ''Ann'') \<and> truthy (Str ''Ann'') \<and>
        map_of body_duplicate_email ''email'' = Some (Str ''user1@example.com'') \<and>
        ''user1@example.com'' \<noteq> [] \<and>
        (\<exists>u \<in> set [stored_user]. user_email u = Str ''user1@example.com'')"
    by (simp add: body_duplicate_email_def stored_user_def)
  have h3: "res_status (snd (users_POST 5 6 7 (Some (Obj body_new_email)) [stored_user])) = 201"
    by (simp add: users_POST_def body_new_email_def stored_user_def list_ex_iff Let_def)
  have c1: "res_status (snd (users_POST 5 6 7 (Some (Obj body_without_email)) [stored_user])) = 400 \<and>
      fst (users_POST 5 6 7 (Some (Obj body_without_email)) [stored_user]) = [stored_user]"
    using users_POST_atomic_on_error
            [of body_without_email 5 6 7 "[stored_user]" Undefined "[]" None] h1
    by blast
  have c2: "res_status (snd (users_POST 5 6 7 (Some (Obj body_duplicate_email)) [stored_user])) = 409 \<and>
      fst (users_POST 5 6 7 (Some (Obj body_duplicate_email)) [stored_user]) = [stored_user]"
    using users_POST_atomic_on_error
            [of body_duplicate_email 5 6 7 "[stored_user]" "Str ''Ann''"
                "''user1@example.com''" None] h2
    by blast
  have c3: "\<exists>u. fst (users_POST 5 6 7 (Some (Obj body_new_email)) [stored_user]) =
                 [stored_user] @ [u]"
    using users_POST_atomic_on_error
            [of body_new_email 5 6 7 "[stored_user]" Undefined "[]"
                "Some (Obj body_new_email)"] h3
    by blast
  show ?thesis
    using h1 h2 h3 c1 c2 c3 by blast
qed

end
